theory Spec2Isabelle
  imports Complex_Main "HOL-Library.Word"
begin

section \<open>Values of the language runtime\<close>

text \<open>
  The verifier of \<^verbatim>\<open>validate.ts\<close> works on values produced by \<^verbatim>\<open>JSON.parse\<close>.
  A JSON object is the list of its own properties; the first binding of a key is the
  one a property read sees. A JSON number is a rational: every number literal of a JSON
  text denotes one, and the arithmetic of the expiration check is exact on the integral
  second counts that \<^verbatim>\<open>exp\<close> and the clock carry (rounding of IEEE doubles and the
  infinities that an oversized literal parses to are not part of this model).
\<close>

datatype json =
    JNull
  | JBool bool
  | JNum rat
  | JStr string
  | JArr "json list"
  | JObj "(string \<times> json) list"

type_synonym jose = "(string \<times> json) list"

type_synonym uint8Array = "8 word list"

text \<open>
  What a property read \<^verbatim>\<open>x[key]\<close> on an object made by \<^verbatim>\<open>JSON.parse\<close> evaluates to:
  the own property, else the member that the object inherits from \<^verbatim>\<open>Object.prototype\<close>,
  else \<^verbatim>\<open>undefined\<close>.
\<close>

datatype jsvalue =
    JsUndefined
  | JsJson json
  | JsInherited string

datatype jstype = TUndefined | TObject | TBoolean | TNumber | TString | TFunction

text \<open>
  A thrown value, as far as the \<^verbatim>\<open>catch\<close> block of \<^verbatim>\<open>validateJwt\<close> can tell values
  apart: it reads \<^verbatim>\<open>err.message\<close> and nothing else.
  \<^item> \<open>ErrorObject name msg\<close>: an object whose \<^verbatim>\<open>message\<close> is the string \<open>msg\<close>
    (what \<^verbatim>\<open>Error(msg)\<close>, \<^verbatim>\<open>TypeError(msg)\<close>, ... construct);
  \<^item> \<open>NoMessage\<close>: any other value except \<^verbatim>\<open>null\<close> and \<^verbatim>\<open>undefined\<close> (a thrown string
    or number, an object without a string \<^verbatim>\<open>message\<close>);
  \<^item> \<open>Nullish\<close>: \<^verbatim>\<open>null\<close> or \<^verbatim>\<open>undefined\<close>, on which a property read raises a
    \<^verbatim>\<open>TypeError\<close>;
  \<^item> \<open>Unreadable e\<close>: an object on which a read of \<^verbatim>\<open>message\<close> throws \<open>e\<close> (an accessor
    property whose getter throws, a proxy);
  \<^item> \<open>Unconvertible e\<close>: an object whose \<^verbatim>\<open>message\<close> can be read but not converted to a
    string, the conversion throwing \<open>e\<close> (a \<^verbatim>\<open>TypeError\<close> for a message that is a
    \<^verbatim>\<open>Symbol\<close>, whatever its \<^verbatim>\<open>toString\<close> throws for an object).
  The two reads of \<^verbatim>\<open>err.message\<close> in the \<^verbatim>\<open>catch\<close> block are taken to see the same value.
\<close>

datatype exn =
    ErrorObject string string
  | NoMessage
  | Nullish
  | Unreadable exn
  | Unconvertible exn

text \<open>The state of a promise once nothing more can happen to it.\<close>

datatype 'a promise =
    Fulfilled 'a
  | Rejected exn
  | Pending

text \<open>
  What one call of a caller-supplied handler does: it throws, or it returns. A returned
  plain value and a returned promise that fulfils with that value are the same to
  \<^verbatim>\<open>Promise.all\<close> (\<open>Value\<close>); a returned promise may also reject, at some tick of the
  event loop, or never settle.
\<close>

datatype 'r returned =
    Value 'r
  | RejectsAt nat exn
  | NeverSettles

datatype 'r called =
    Throws exn
  | Returns "'r returned"

datatype 'r property =
    NoFunction
  | Function "jsvalue \<Rightarrow> 'r called"

text \<open>
  The handler table is a caller-supplied object; it is modelled by its property read
  \<^verbatim>\<open>handlers[str]\<close>, which says whether a function is found under a name and what a
  call of it does. (The read itself is taken not to throw, as for a table of data
  properties.)
\<close>

type_synonym 'r handlers = "string \<Rightarrow> 'r property"

section \<open>The data of \<^verbatim>\<open>validate.ts\<close>\<close>

record jwtObjectWithUnknownProps =
  maybeHeader :: json
  maybePayload :: json
  maybeSignature :: json

record jwtObject =
  header :: jose
  payload :: json
  signature :: string

record jwtError =
  message :: "string option"
  name :: string
  date :: int

datatype 'r jwtValidation =
    isValid: Valid (validObject: jwtObject) (validJwt: string) (critResult: "'r list option")
  | Invalid (invalidJwt: string) (error: jwtError) (invalidIsExpired: bool)

datatype algorithms =
    Single string
  | Several "string list"

record 'r validation =
  jwt :: string
  key :: string
  algorithm :: algorithms
  critHandlers :: "'r handlers option"

text \<open>
  The collaborators that \<^verbatim>\<open>validate.ts\<close> imports and the clock it reads are parameters
  of the model: the base64url decoder (\<^verbatim>\<open>./base64/base64url.ts\<close>), the hex encoder and
  \<^verbatim>\<open>TextDecoder\<close>, \<^verbatim>\<open>JSON.parse\<close>, the signer \<^verbatim>\<open>makeJwt\<close> (\<^verbatim>\<open>./create.ts\<close>),
  \<^verbatim>\<open>Date.now()\<close> as read by \<^verbatim>\<open>isExpired\<close> and the time at which \<^verbatim>\<open>new Date()\<close> runs in
  the constructor of \<^verbatim>\<open>JwtError\<close> (both in milliseconds).
\<close>

record runtime =
  convertBase64urlToUint8Array :: "string \<Rightarrow> exn + uint8Array"
  convertUint8ArrayToHex :: "uint8Array \<Rightarrow> string"
  textDecode :: "uint8Array \<Rightarrow> string"
  jsonParse :: "string \<Rightarrow> exn + json"
  makeJwt :: "jwtObject \<Rightarrow> string \<Rightarrow> exn + string"
  dateNow :: int
  newDate :: int

section \<open>Primitive operations of the language\<close>

fun typeofJson :: "json \<Rightarrow> jstype" where
  "typeofJson JNull = TObject"
| "typeofJson (JBool b) = TBoolean"
| "typeofJson (JNum n) = TNumber"
| "typeofJson (JStr s) = TString"
| "typeofJson (JArr xs) = TObject"
| "typeofJson (JObj kvs) = TObject"

fun typeof :: "jsvalue \<Rightarrow> jstype" where
  "typeof JsUndefined = TUndefined"
| "typeof (JsJson v) = typeofJson v"
| "typeof (JsInherited k) = TFunction"

fun isArray :: "jsvalue \<Rightarrow> bool" where
  "isArray (JsJson (JArr xs)) = True"
| "isArray v = False"

fun elements :: "jsvalue \<Rightarrow> jsvalue list" where
  "elements (JsJson (JArr xs)) = map JsJson xs"
| "elements v = []"

text \<open>\<^verbatim>\<open>!v\<close>: the values that count as false.\<close>

fun falsy :: "jsvalue \<Rightarrow> bool" where
  "falsy JsUndefined = True"
| "falsy (JsJson JNull) = True"
| "falsy (JsJson (JBool b)) = (\<not> b)"
| "falsy (JsJson (JNum n)) = (n = 0)"
| "falsy (JsJson (JStr s)) = (s = [])"
| "falsy v = False"

text \<open>The string, the number and the own properties that a value of that type holds.\<close>

fun stringOf :: "jsvalue \<Rightarrow> string" where
  "stringOf (JsJson (JStr s)) = s"
| "stringOf v = []"

fun numberOf :: "jsvalue \<Rightarrow> rat" where
  "numberOf (JsJson (JNum n)) = n"
| "numberOf v = 0"

fun properties :: "json \<Rightarrow> jose" where
  "properties (JObj kvs) = kvs"
| "properties v = []"

text \<open>
  The function-valued members of \<^verbatim>\<open>Object.prototype\<close>, which every object made by
  \<^verbatim>\<open>JSON.parse\<close> inherits. (The accessor \<^verbatim>\<open>__proto__\<close>, which some runtimes remove, is
  left out; no statement below is about that name.)
\<close>

definition objectPrototype :: "string list" where
  "objectPrototype =
     [''constructor'', ''hasOwnProperty'', ''isPrototypeOf'', ''propertyIsEnumerable'',
      ''toLocaleString'', ''toString'', ''valueOf'', ''__defineGetter__'',
      ''__defineSetter__'', ''__lookupGetter__'', ''__lookupSetter__'']"

definition getProperty :: "jose \<Rightarrow> string \<Rightarrow> jsvalue" where
  "getProperty obj k =
     (case map_of obj k of
        Some v \<Rightarrow> JsJson v
      | None \<Rightarrow> if k \<in> set objectPrototype then JsInherited k else JsUndefined)"

text \<open>\<^verbatim>\<open>handlers?.[str]\<close>: \<^verbatim>\<open>undefined\<close> when no table was supplied.\<close>

definition getHandler :: "'r handlers option \<Rightarrow> string \<Rightarrow> 'r property" where
  "getHandler handlers str = (case handlers of None \<Rightarrow> NoFunction | Some table \<Rightarrow> table str)"

fun isFunction :: "'r property \<Rightarrow> bool" where
  "isFunction NoFunction = False"
| "isFunction (Function f) = True"

text \<open>\<^verbatim>\<open>s.split(sep)\<close> for a one-character separator: never the empty list.\<close>

fun jsSplit :: "char \<Rightarrow> string \<Rightarrow> string list" where
  "jsSplit sep [] = [[]]"
| "jsSplit sep (c # cs) =
     (if c = sep then [] # jsSplit sep cs
      else (case jsSplit sep cs of
              [] \<Rightarrow> [[c]]
            | seg # segs \<Rightarrow> (c # seg) # segs))"

text \<open>\<^verbatim>\<open>xs.map(f)\<close> for an \<open>f\<close> that may throw: the first throw ends the loop.\<close>

fun mapThrowing :: "('a \<Rightarrow> exn + 'b) \<Rightarrow> 'a list \<Rightarrow> exn + 'b list" where
  "mapThrowing f [] = Inr []"
| "mapThrowing f (x # xs) =
     (case f x of
        Inl e \<Rightarrow> Inl e
      | Inr y \<Rightarrow> (case mapThrowing f xs of Inl e \<Rightarrow> Inl e | Inr ys \<Rightarrow> Inr (y # ys)))"

section \<open>The functions of \<^verbatim>\<open>validate.ts\<close>\<close>

text \<open>
  The object that \<^verbatim>\<open>new JwtError(message)\<close> builds, for a message that is a string
  (\<open>Some\<close>) or is not one (\<open>None\<close>).
\<close>

definition newJwtError :: "runtime \<Rightarrow> string option \<Rightarrow> jwtError" where
  "newJwtError rt msg = \<lparr>message = msg, name = ''JwtError'', date = newDate rt\<rparr>"

definition isObject :: "json \<Rightarrow> bool" where
  "isObject obj = (obj \<noteq> JNull \<and> typeofJson obj = TObject \<and> isArray (JsJson obj) = False)"

text \<open>\<^verbatim>\<open>key in x\<close>: an own or an inherited property.\<close>

definition hasProperty :: "string \<Rightarrow> jose \<Rightarrow> bool" where
  "hasProperty k x = (k \<in> fst ` set x \<or> k \<in> set objectPrototype)"

text \<open>The default of the parameter \<^verbatim>\<open>leeway\<close> is 0.\<close>

definition isExpired :: "runtime \<Rightarrow> rat \<Rightarrow> rat option \<Rightarrow> bool" where
  "isExpired rt expClaim leeway =
     (expClaim + (case leeway of None \<Rightarrow> 0 | Some l \<Rightarrow> l) < of_int (dateNow rt) / 1000)"

definition validateAlgorithm :: "algorithms \<Rightarrow> string \<Rightarrow> bool" where
  "validateAlgorithm allowed jwtAlg =
     ((case allowed of Several xs \<Rightarrow> list_ex (\<lambda>x. x = jwtAlg) xs | Single a \<Rightarrow> False)
      \<or> (case allowed of Single a \<Rightarrow> a = jwtAlg | Several xs \<Rightarrow> False))"

text \<open>
  \<^verbatim>\<open>Promise.all\<close> on what the handlers returned: it rejects with the reason of the
  promise that rejects first (the earliest tick, the leftmost among equals), also when
  another one never settles; otherwise it fulfils with the values in the order of the
  array once every promise has fulfilled, and stays pending if one never does.
\<close>

fun firstRejection :: "'r returned list \<Rightarrow> (nat \<times> exn) option" where
  "firstRejection [] = None"
| "firstRejection (RejectsAt t e # rs) =
     (case firstRejection rs of
        None \<Rightarrow> Some (t, e)
      | Some (t', e') \<Rightarrow> if t' < t then Some (t', e') else Some (t, e))"
| "firstRejection (r # rs) = firstRejection rs"

fun fulfilments :: "'r returned list \<Rightarrow> 'r list option" where
  "fulfilments [] = Some []"
| "fulfilments (Value v # rs) = map_option ((#) v) (fulfilments rs)"
| "fulfilments (r # rs) = None"

definition promiseAll :: "'r returned list \<Rightarrow> 'r list promise" where
  "promiseAll rs =
     (case firstRejection rs of
        Some (t, e) \<Rightarrow> Rejected e
      | None \<Rightarrow> (case fulfilments rs of Some vs \<Rightarrow> Fulfilled vs | None \<Rightarrow> Pending))"

text \<open>
  \<^verbatim>\<open>header.crit.map((str) => handlers![str](header[str]))\<close>: the handlers are called
  from left to right, each with the value read from the header under its name; a handler
  that throws ends the loop. The first component lists the calls made, as pairs of the
  name and the argument. (A call of something that is no function raises the runtime's
  \<^verbatim>\<open>TypeError\<close>.)
\<close>

definition notCallable :: exn where
  "notCallable = ErrorObject ''TypeError'' ''handlers[str] is not a function''"

fun callHandlers ::
  "'r handlers option \<Rightarrow> jose \<Rightarrow> string list \<Rightarrow> (string \<times> jsvalue) list \<times> (exn + 'r returned list)"
where
  "callHandlers handlers hdr [] = ([], Inr [])"
| "callHandlers handlers hdr (str # rest) =
     (case getHandler handlers str of
        NoFunction \<Rightarrow> ([], Inl notCallable)
      | Function f \<Rightarrow>
          (case f (getProperty hdr str) of
             Throws e \<Rightarrow> ([(str, getProperty hdr str)], Inl e)
           | Returns r \<Rightarrow>
               (case callHandlers handlers hdr rest of
                  (calls, Inl e) \<Rightarrow> ((str, getProperty hdr str) # calls, Inl e)
                | (calls, Inr rs) \<Rightarrow> ((str, getProperty hdr str) # calls, Inr (r # rs)))))"

definition reservedWords :: "string list" where
  "reservedWords =
     [''alg'', ''jku'', ''jwk'', ''kid'', ''x5u'', ''x5c'', ''x5t'', ''x5t#S256'', ''typ'',
      ''cty'', ''crit'', ''enc'', ''zip'', ''epk'', ''apu'', ''apv'', ''iv'', ''tag'', ''p2s'',
      ''p2c'']"

text \<open>
  \<open>checkHeaderCrit\<close> throws (\<open>Inl\<close>) or returns the promise of \<^verbatim>\<open>Promise.all\<close>; with
  it comes the list of the handler calls it has made.
\<close>

definition checkHeaderCrit ::
  "jose \<Rightarrow> 'r handlers option \<Rightarrow> (string \<times> jsvalue) list \<times> (exn + 'r list promise)"
where
  "checkHeaderCrit hdr handlers =
     (let crit = getProperty hdr ''crit'' in
      if \<not> isArray crit \<or> list_ex (\<lambda>str. typeof str \<noteq> TString \<or> falsy str) (elements crit)
      then ([], Inl (ErrorObject ''Error''
              ''header parameter 'crit' must be an array of non-empty strings''))
      else if list_ex (\<lambda>str. stringOf str \<in> set reservedWords) (elements crit)
      then ([], Inl (ErrorObject ''Error''
              ''the 'crit' list contains a non-extension header parameter''))
      else if list_ex (\<lambda>str. typeof (getProperty hdr (stringOf str)) = TUndefined
                          \<or> \<not> isFunction (getHandler handlers (stringOf str))) (elements crit)
      then ([], Inl (ErrorObject ''Error''
              ''critical extension header parameters are not understood''))
      else (case callHandlers handlers hdr (map stringOf (elements crit)) of
              (calls, Inl e) \<Rightarrow> (calls, Inl e)
            | (calls, Inr rs) \<Rightarrow> (calls, Inr (promiseAll rs))))"

text \<open>
  The cast \<^verbatim>\<open>maybeJwtObject as JwtObject\<close> changes no value: once the checks have
  passed, the header is an object and the signature a string.
\<close>

definition validateJwtObject :: "runtime \<Rightarrow> jwtObjectWithUnknownProps \<Rightarrow> exn + jwtObject" where
  "validateJwtObject rt maybeJwtObject =
     (let hdr = maybeHeader maybeJwtObject;
          pl = maybePayload maybeJwtObject;
          jwtObject = \<lparr>header = properties hdr, payload = pl,
                       signature = stringOf (JsJson (maybeSignature maybeJwtObject))\<rparr>
      in
      if typeofJson (maybeSignature maybeJwtObject) \<noteq> TString
      then Inl (ErrorObject ''ReferenceError'' ''the signature is no string'')
      else if \<not> (isObject hdr \<and> hasProperty ''alg'' (properties hdr)
                  \<and> typeof (getProperty (properties hdr) ''alg'') = TString)
      then Inl (ErrorObject ''ReferenceError'' ''header parameter 'alg' is not a string'')
      else if isObject pl \<and> hasProperty ''exp'' (properties pl)
      then (if typeof (getProperty (properties pl) ''exp'') \<noteq> TNumber
            then Inl (ErrorObject ''RangeError'' ''claim 'exp' is not a number'')
            else if isExpired rt (numberOf (getProperty (properties pl) ''exp'')) (Some 1)
            then Inl (ErrorObject ''RangeError'' ''the jwt is expired'')
            else Inr jwtObject)
      else Inr jwtObject)"

text \<open>
  An \<^verbatim>\<open>async\<close> function: what \<open>checkHeaderCrit\<close> throws rejects the returned promise.
\<close>

definition handleJwtObject ::
  "jwtObject \<Rightarrow> 'r handlers option
     \<Rightarrow> (string \<times> jsvalue) list \<times> (jwtObject \<times> 'r list option) promise"
where
  "handleJwtObject jwtObject handlers =
     (if hasProperty ''crit'' (header jwtObject)
      then (case checkHeaderCrit (header jwtObject) handlers of
              (calls, Inl e) \<Rightarrow> (calls, Rejected e)
            | (calls, Inr (Rejected e)) \<Rightarrow> (calls, Rejected e)
            | (calls, Inr Pending) \<Rightarrow> (calls, Pending)
            | (calls, Inr (Fulfilled rs)) \<Rightarrow> (calls, Fulfilled (jwtObject, Some rs)))
      else ([], Fulfilled (jwtObject, None)))"

text \<open>The second \<^verbatim>\<open>map\<close> of \<open>parseAndDecode\<close>, on one segment and its index.\<close>

definition decodeSegment :: "runtime \<Rightarrow> nat \<times> uint8Array \<Rightarrow> exn + json" where
  "decodeSegment rt = (\<lambda>(index, uint8Array).
     if index = 2 then Inr (JStr (convertUint8ArrayToHex rt uint8Array))
     else jsonParse rt (textDecode rt uint8Array))"

definition parseAndDecode :: "runtime \<Rightarrow> string \<Rightarrow> exn + jwtObjectWithUnknownProps" where
  "parseAndDecode rt token =
     (case mapThrowing (convertBase64urlToUint8Array rt) (jsSplit (CHR ''.'') token) of
        Inl e \<Rightarrow> Inl e
      | Inr arrays \<Rightarrow>
          (case mapThrowing (decodeSegment rt) (enumerate 0 arrays) of
             Inl e \<Rightarrow> Inl e
           | Inr parsedArray \<Rightarrow>
               if length parsedArray \<noteq> 3
               then Inl (ErrorObject ''TypeError'' ''invalid serialization'')
               else Inr \<lparr>maybeHeader = parsedArray ! 0, maybePayload = parsedArray ! 1,
                         maybeSignature = parsedArray ! 2\<rparr>))"

text \<open>
  The body of the \<^verbatim>\<open>try\<close> statement of \<open>validateJwt\<close>: it returns the valid result
  (\<open>Fulfilled\<close>), throws (\<open>Rejected\<close>), or waits for ever for the handlers (\<open>Pending\<close>).
\<close>

definition tryBlock :: "runtime \<Rightarrow> 'r validation \<Rightarrow> 'r jwtValidation promise" where
  "tryBlock rt v =
     (case parseAndDecode rt (jwt v) of
        Inl e \<Rightarrow> Rejected e
      | Inr decoded \<Rightarrow>
     (case validateJwtObject rt decoded of
        Inl e \<Rightarrow> Rejected e
      | Inr validated \<Rightarrow>
     (case snd (handleJwtObject validated (critHandlers v)) of
        Rejected e \<Rightarrow> Rejected e
      | Pending \<Rightarrow> Pending
      | Fulfilled (oldJwtObject, outputs) \<Rightarrow>
          if \<not> validateAlgorithm (algorithm v) (stringOf (getProperty (header oldJwtObject) ''alg''))
          then Rejected (ErrorObject ''Error''
                 (''no matching algorithm: '' @ stringOf (getProperty (header oldJwtObject) ''alg'')))
          else
     (case makeJwt rt oldJwtObject (key v) of
        Inl e \<Rightarrow> Rejected e
      | Inr token \<Rightarrow>
     (case parseAndDecode rt token of
        Inl e \<Rightarrow> Rejected e
      | Inr fresh \<Rightarrow>
          if JStr (signature oldJwtObject) \<noteq> maybeSignature fresh
          then Rejected (ErrorObject ''Error'' ''signatures don't match'')
          else Fulfilled (Valid oldJwtObject (jwt v) outputs))))))"

text \<open>
  \<^verbatim>\<open>err.message\<close>: the read throws (the \<^verbatim>\<open>TypeError\<close> of a property read on \<^verbatim>\<open>null\<close> or
  \<^verbatim>\<open>undefined\<close>, or what the getter throws), or it gives a string, or a value that cannot be
  converted to a string, or any other value.
\<close>

datatype messageValue =
    StringMessage string
  | OtherMessage
  | Inconvertible exn

definition cannotRead :: exn where
  "cannotRead = ErrorObject ''TypeError'' ''Cannot read property 'message' of undefined''"

fun readMessage :: "exn \<Rightarrow> exn + messageValue" where
  "readMessage (ErrorObject n msg) = Inr (StringMessage msg)"
| "readMessage NoMessage = Inr OtherMessage"
| "readMessage Nullish = Inl cannotRead"
| "readMessage (Unreadable e) = Inl e"
| "readMessage (Unconvertible e) = Inr (Inconvertible e)"

text \<open>
  The call \<^verbatim>\<open>new JwtError(message)\<close>: \<^verbatim>\<open>super(message)\<close> converts a message other than
  \<^verbatim>\<open>undefined\<close> to a string, and throws where that cannot be done; then the fields are
  set as in \<open>newJwtError\<close>.
\<close>

fun constructJwtError :: "runtime \<Rightarrow> messageValue \<Rightarrow> exn + jwtError" where
  "constructJwtError rt (StringMessage msg) = Inr (newJwtError rt (Some msg))"
| "constructJwtError rt OtherMessage = Inr (newJwtError rt None)"
| "constructJwtError rt (Inconvertible e) = Inl e"

text \<open>The \<^verbatim>\<open>catch\<close> block; what it throws rejects the promise of \<open>validateJwt\<close>.\<close>

definition catchBlock :: "runtime \<Rightarrow> 'r validation \<Rightarrow> exn \<Rightarrow> 'r jwtValidation promise" where
  "catchBlock rt v err =
     (case readMessage err of
        Inl e \<Rightarrow> Rejected e
      | Inr msg \<Rightarrow>
          (case constructJwtError rt msg of
             Inl e \<Rightarrow> Rejected e
           | Inr jwtError \<Rightarrow>
               Fulfilled (Invalid (jwt v) jwtError
                            (if msg = StringMessage ''the jwt is expired'' then True
                             else False))))"

definition validateJwt :: "runtime \<Rightarrow> 'r validation \<Rightarrow> 'r jwtValidation promise" where
  "validateJwt rt v =
     (case tryBlock rt v of
        Rejected err \<Rightarrow> catchBlock rt v err
      | Fulfilled result \<Rightarrow> Fulfilled result
      | Pending \<Rightarrow> Pending)"

section \<open>Notions used in the statements\<close>

text \<open>The entries of \<^verbatim>\<open>header.crit\<close>, read as strings.\<close>

definition critNames :: "jose \<Rightarrow> string list" where
  "critNames hdr = map stringOf (elements (getProperty hdr ''crit''))"

text \<open>A handler call fails when the handler throws or the promise it returns rejects.\<close>

fun failing :: "'r called \<Rightarrow> bool" where
  "failing (Throws e) = True"
| "failing (Returns (RejectsAt t e)) = True"
| "failing c = False"

fun nonEmptyString :: "json \<Rightarrow> bool" where
  "nonEmptyString (JStr s) = (s \<noteq> [])"
| "nonEmptyString v = False"

fun arrayOfNonEmptyStrings :: "jsvalue \<Rightarrow> bool" where
  "arrayOfNonEmptyStrings (JsJson (JArr xs)) = list_all nonEmptyString xs"
| "arrayOfNonEmptyStrings v = False"

text \<open>
  A thrown value is ordinary when its message can be read and converted (it is neither
  \<^verbatim>\<open>null\<close> nor \<^verbatim>\<open>undefined\<close>, nor unreadable, nor unconvertible) and that message is not
  the text that \<open>validateJwtObject\<close> uses for an expired token. The
  collaborators of \<open>parseAndDecode\<close> fail in the ordinary way when that is all they
  throw (the decoder's \<^verbatim>\<open>TypeError\<close>, the parser's \<^verbatim>\<open>SyntaxError\<close>).
\<close>

fun ordinary :: "exn \<Rightarrow> bool" where
  "ordinary (ErrorObject n msg) = (msg \<noteq> ''the jwt is expired'')"
| "ordinary NoMessage = True"
| "ordinary e = False"

definition ordinaryFailures :: "runtime \<Rightarrow> bool" where
  "ordinaryFailures rt =
     ((\<forall>segment e. convertBase64urlToUint8Array rt segment = Inl e \<longrightarrow> ordinary e)
      \<and> (\<forall>text e. jsonParse rt text = Inl e \<longrightarrow> ordinary e))"

text \<open>
  Every segment of the token is base64url that the decoder accepts, and every segment
  but the third is JSON that the parser accepts.
\<close>

definition decodable :: "runtime \<Rightarrow> string \<Rightarrow> bool" where
  "decodable rt token =
     list_all (\<lambda>(index, segment).
         case convertBase64urlToUint8Array rt segment of
           Inl e \<Rightarrow> False
         | Inr bytes \<Rightarrow> index = 2 \<or> \<not> isl (jsonParse rt (textDecode rt bytes)))
       (enumerate 0 (jsSplit (CHR ''.'') token))"

text \<open>
  A thrown value is readable when the \<^verbatim>\<open>catch\<close> block can read its message and build the
  error from it: it is an object with a string message, or another value that is neither
  \<^verbatim>\<open>null\<close> nor \<^verbatim>\<open>undefined\<close> and whose message reads and converts without a throw. A
  handler call is polite when it settles and fails, if it does, with a readable value; a
  runtime is polite when its collaborators throw readable values only.
\<close>

fun readable :: "exn \<Rightarrow> bool" where
  "readable (ErrorObject n msg) = True"
| "readable NoMessage = True"
| "readable e = False"

fun polite :: "'r called \<Rightarrow> bool" where
  "polite (Throws e) = readable e"
| "polite (Returns (RejectsAt t e)) = readable e"
| "polite (Returns NeverSettles) = False"
| "polite (Returns (Value x)) = True"

definition politeHandlers :: "'r handlers option \<Rightarrow> bool" where
  "politeHandlers handlers =
     (\<forall>str f arg. getHandler handlers str = Function f \<longrightarrow> polite (f arg))"

definition politeRuntime :: "runtime \<Rightarrow> bool" where
  "politeRuntime rt =
     ((\<forall>segment e. convertBase64urlToUint8Array rt segment = Inl e \<longrightarrow> readable e)
      \<and> (\<forall>text e. jsonParse rt text = Inl e \<longrightarrow> readable e)
      \<and> (\<forall>input secret e. makeJwt rt input secret = Inl e \<longrightarrow> readable e))"

text \<open>
  The payload is an object whose \<^verbatim>\<open>exp\<close> is a number that lies more than the leeway of
  one second before the clock.
\<close>

definition pastLeeway :: "runtime \<Rightarrow> json \<Rightarrow> bool" where
  "pastLeeway rt pl =
     (case getProperty (properties pl) ''exp'' of
        JsJson (JNum n) \<Rightarrow> isObject pl \<and> n + 1 < of_int (dateNow rt) / 1000
      | _ \<Rightarrow> False)"

section \<open>Sample tokens\<close>

text \<open>
  The tokens that the closed theorems below are evaluated on. The signature of the first
  one is the HMAC-SHA256 of its first two segments under the key \<^verbatim>\<open>secret\<close>; the
  second one differs from it in the first character of the signature segment. The other
  tokens are rejected before their signature is looked at.
\<close>

definition plainHeaderText :: string where
  \<open>plainHeaderText = ''{"alg":"HS256","typ":"JWT"}''\<close>

definition reservedHeaderText :: string where
  \<open>reservedHeaderText = ''{"alg":"HS256","crit":["alg"]}''\<close>

definition extensionHeaderText :: string where
  \<open>extensionHeaderText = ''{"alg":"HS256","crit":["ext"],"ext":true}''\<close>

definition issuerPayloadText :: string where
  \<open>issuerPayloadText = ''{"iss":"joe"}''\<close>

definition expiredPayloadText :: string where
  \<open>expiredPayloadText = ''{"exp":0}''\<close>

definition typeHeaderText :: string where
  \<open>typeHeaderText = ''{"typ":"JWT"}''\<close>

definition plainHeaderBytes :: uint8Array where
  "plainHeaderBytes =
     [123, 34, 97, 108, 103, 34, 58, 34, 72, 83, 50, 53, 54, 34, 44, 34, 116, 121, 112, 34,
      58, 34, 74, 87, 84, 34, 125]"

definition reservedHeaderBytes :: uint8Array where
  "reservedHeaderBytes =
     [123, 34, 97, 108, 103, 34, 58, 34, 72, 83, 50, 53, 54, 34, 44, 34, 99, 114, 105, 116,
      34, 58, 91, 34, 97, 108, 103, 34, 93, 125]"

definition extensionHeaderBytes :: uint8Array where
  "extensionHeaderBytes =
     [123, 34, 97, 108, 103, 34, 58, 34, 72, 83, 50, 53, 54, 34, 44, 34, 99, 114, 105, 116,
      34, 58, 91, 34, 101, 120, 116, 34, 93, 44, 34, 101, 120, 116, 34, 58, 116, 114, 117,
      101, 125]"

definition issuerPayloadBytes :: uint8Array where
  "issuerPayloadBytes =
     [123, 34, 105, 115, 115, 34, 58, 34, 106, 111, 101, 34, 125]"

definition expiredPayloadBytes :: uint8Array where
  "expiredPayloadBytes =
     [123, 34, 101, 120, 112, 34, 58, 48, 125]"

definition typeHeaderBytes :: uint8Array where
  "typeHeaderBytes =
     [123, 34, 116, 121, 112, 34, 58, 34, 74, 87, 84, 34, 125]"

definition plainHeaderSegment :: string where
  "plainHeaderSegment = ''eyJhbGciOiJIUzI1NiIsInR5cCI6IkpXVCJ9''"

definition reservedHeaderSegment :: string where
  "reservedHeaderSegment = ''eyJhbGciOiJIUzI1NiIsImNyaXQiOlsiYWxnIl19''"

definition extensionHeaderSegment :: string where
  "extensionHeaderSegment = ''eyJhbGciOiJIUzI1NiIsImNyaXQiOlsiZXh0Il0sImV4dCI6dHJ1ZX0''"

definition issuerPayloadSegment :: string where
  "issuerPayloadSegment = ''eyJpc3MiOiJqb2UifQ''"

definition expiredPayloadSegment :: string where
  "expiredPayloadSegment = ''eyJleHAiOjB9''"

definition typeHeaderSegment :: string where
  "typeHeaderSegment = ''eyJ0eXAiOiJKV1QifQ''"

definition plainHeader :: json where
  "plainHeader = JObj [(''alg'', JStr ''HS256''), (''typ'', JStr ''JWT'')]"

definition reservedHeader :: json where
  "reservedHeader = JObj [(''alg'', JStr ''HS256''), (''crit'', JArr [JStr ''alg''])]"

definition extensionHeader :: json where
  "extensionHeader =
     JObj [(''alg'', JStr ''HS256''), (''crit'', JArr [JStr ''ext'']), (''ext'', JBool True)]"

definition issuerPayload :: json where
  "issuerPayload = JObj [(''iss'', JStr ''joe'')]"

definition expiredPayload :: json where
  "expiredPayload = JObj [(''exp'', JNum 0)]"

definition typeHeader :: json where
  "typeHeader = JObj [(''typ'', JStr ''JWT'')]"

definition goodSignatureSegment :: string where
  "goodSignatureSegment = ''yb-iLVXluCLKGDiKkuA0qgbKh7vbSrvNpKh2f-QihWg''"

definition goodSignatureBytes :: uint8Array where
  "goodSignatureBytes =
     [201, 191, 162, 45, 85, 229, 184, 34, 202, 24, 56, 138, 146, 224, 52, 170, 6, 202, 135,
      187, 219, 74, 187, 205, 164, 168, 118, 127, 228, 34, 133, 104]"

definition goodSignatureHex :: string where
  "goodSignatureHex = ''c9bfa22d55e5b822ca18388a92e034aa06ca87bbdb4abbcda4a8767fe4228568''"

definition badSignatureSegment :: string where
  "badSignatureSegment = ''zb-iLVXluCLKGDiKkuA0qgbKh7vbSrvNpKh2f-QihWg''"

definition badSignatureBytes :: uint8Array where
  "badSignatureBytes =
     [205, 191, 162, 45, 85, 229, 184, 34, 202, 24, 56, 138, 146, 224, 52, 170, 6, 202, 135,
      187, 219, 74, 187, 205, 164, 168, 118, 127, 228, 34, 133, 104]"

definition badSignatureHex :: string where
  "badSignatureHex = ''cdbfa22d55e5b822ca18388a92e034aa06ca87bbdb4abbcda4a8767fe4228568''"

definition validToken :: string where
  "validToken = plainHeaderSegment @ ''.'' @ issuerPayloadSegment @ ''.'' @ goodSignatureSegment"

definition tamperedToken :: string where
  "tamperedToken = plainHeaderSegment @ ''.'' @ issuerPayloadSegment @ ''.'' @ badSignatureSegment"

definition twoSegments :: string where
  "twoSegments = plainHeaderSegment @ ''.'' @ issuerPayloadSegment"

definition reservedToken :: string where
  "reservedToken =
     reservedHeaderSegment @ ''.'' @ issuerPayloadSegment @ ''.'' @ goodSignatureSegment"

definition expiredReservedToken :: string where
  "expiredReservedToken =
     reservedHeaderSegment @ ''.'' @ expiredPayloadSegment @ ''.'' @ goodSignatureSegment"

definition expiredToken :: string where
  "expiredToken =
     plainHeaderSegment @ ''.'' @ expiredPayloadSegment @ ''.'' @ goodSignatureSegment"

definition expiredTypeToken :: string where
  "expiredTypeToken =
     typeHeaderSegment @ ''.'' @ expiredPayloadSegment @ ''.'' @ goodSignatureSegment"

definition extensionToken :: string where
  "extensionToken =
     extensionHeaderSegment @ ''.'' @ issuerPayloadSegment @ ''.'' @ goodSignatureSegment"

text \<open>
  A runtime that answers as the collaborators do on the segments of the sample tokens,
  and refuses every other input. Its clock stands at 2020-09-13T12:26:40Z when the
  expiration is checked, and one millisecond later when an error is built.
\<close>

definition sampleDecoder :: "string \<Rightarrow> exn + uint8Array" where
  "sampleDecoder segment =
     (case map_of
        [(plainHeaderSegment, plainHeaderBytes), (reservedHeaderSegment, reservedHeaderBytes),
         (extensionHeaderSegment, extensionHeaderBytes),
         (issuerPayloadSegment, issuerPayloadBytes), (expiredPayloadSegment, expiredPayloadBytes),
         (goodSignatureSegment, goodSignatureBytes), (badSignatureSegment, badSignatureBytes),
         (typeHeaderSegment, typeHeaderBytes)]
        segment of
        Some bytes \<Rightarrow> Inr bytes
      | None \<Rightarrow> Inl (ErrorObject ''TypeError'' ''Illegal base64url string!''))"

definition sampleHex :: "uint8Array \<Rightarrow> string" where
  "sampleHex bytes =
     (case map_of
        [(goodSignatureBytes, goodSignatureHex), (badSignatureBytes, badSignatureHex)] bytes of
        Some digits \<Rightarrow> digits
      | None \<Rightarrow> [])"

definition sampleTextDecoder :: "uint8Array \<Rightarrow> string" where
  "sampleTextDecoder bytes =
     (case map_of
        [(plainHeaderBytes, plainHeaderText), (reservedHeaderBytes, reservedHeaderText),
         (extensionHeaderBytes, extensionHeaderText), (issuerPayloadBytes, issuerPayloadText),
         (expiredPayloadBytes, expiredPayloadText), (typeHeaderBytes, typeHeaderText)] bytes of
        Some text \<Rightarrow> text
      | None \<Rightarrow> [])"

definition sampleJsonParse :: "string \<Rightarrow> exn + json" where
  "sampleJsonParse text =
     (case map_of
        [(plainHeaderText, plainHeader), (reservedHeaderText, reservedHeader),
         (extensionHeaderText, extensionHeader), (issuerPayloadText, issuerPayload),
         (expiredPayloadText, expiredPayload), (typeHeaderText, typeHeader)] text of
        Some v \<Rightarrow> Inr v
      | None \<Rightarrow> Inl (ErrorObject ''SyntaxError'' ''Unexpected end of JSON input''))"

definition sampleMakeJwt :: "jwtObject \<Rightarrow> string \<Rightarrow> exn + string" where
  "sampleMakeJwt input secret =
     (if header input = properties plainHeader \<and> payload input = issuerPayload
         \<and> secret = ''secret''
      then Inr validToken
      else Inl (ErrorObject ''Error'' ''no signature on record''))"

definition sampleRuntime :: runtime where
  "sampleRuntime =
     \<lparr>convertBase64urlToUint8Array = sampleDecoder,
      convertUint8ArrayToHex = sampleHex,
      textDecode = sampleTextDecoder,
      jsonParse = sampleJsonParse,
      makeJwt = sampleMakeJwt,
      dateNow = 1600000000000,
      newDate = 1600000000001\<rparr>"

text \<open>
  A handler table with one entry, \<^verbatim>\<open>ext\<close>, whose handler does the same on every
  call.
\<close>

definition handlersDoing :: "string called \<Rightarrow> string handlers option" where
  "handlersDoing outcome =
     Some (\<lambda>str. if str = ''ext'' then Function (\<lambda>arg. outcome) else NoFunction)"

definition sampleRequest :: "string \<Rightarrow> string handlers option \<Rightarrow> string validation" where
  "sampleRequest token handlers =
     \<lparr>jwt = token, key = ''secret'', algorithm = Single ''HS256'', critHandlers = handlers\<rparr>"

text \<open>
  A header that lists \<^verbatim>\<open>toString\<close> as critical and has no such key, and a handler table
  in which a read of \<^verbatim>\<open>toString\<close> finds a function that returns \<^verbatim>\<open>"[object Object]"\<close>, as
  the empty table \<^verbatim>\<open>{}\<close> does through \<^verbatim>\<open>Object.prototype\<close>.
\<close>

definition inheritedHeader :: jose where
  "inheritedHeader = [(''alg'', JStr ''HS256''), (''crit'', JArr [JStr ''toString''])]"

definition toStringTable :: "string handlers option" where
  "toStringTable =
     Some (\<lambda>str. if str = ''toString''
                  then Function (\<lambda>arg. Returns (Value ''[object Object]''))
                  else NoFunction)"

text \<open>
  A header with two critical entries, of which only \<^verbatim>\<open>ext\<close> is a key of the header, and
  the handler table \<^verbatim>\<open>{ext: () => "done"}\<close>, in which a read of \<^verbatim>\<open>toString\<close> finds the
  inherited function as well.
\<close>

definition twoEntriesHeader :: jose where
  "twoEntriesHeader =
     [(''alg'', JStr ''HS256''), (''crit'', JArr [JStr ''ext'', JStr ''toString'']),
      (''ext'', JBool True)]"

definition extTable :: "string handlers option" where
  "extTable =
     Some (\<lambda>str. if str = ''ext'' then Function (\<lambda>arg. Returns (Value ''done''))
                  else if str = ''toString''
                  then Function (\<lambda>arg. Returns (Value ''[object Object]''))
                  else NoFunction)"

section \<open>Auxiliary facts\<close>

subsection \<open>Objects and decoding\<close>

lemma isObject_iff: "isObject v = (\<exists>kvs. v = JObj kvs)"
  by (cases v) (simp_all add: isObject_def)

lemma hasProperty_alg: "hasProperty ''alg'' kvs = (''alg'' \<in> fst ` set kvs)"
  by (simp add: hasProperty_def objectPrototype_def)

lemma hasProperty_exp: "hasProperty ''exp'' kvs = (''exp'' \<in> fst ` set kvs)"
  by (simp add: hasProperty_def objectPrototype_def)

lemma hasProperty_crit: "hasProperty ''crit'' kvs = (''crit'' \<in> fst ` set kvs)"
  by (simp add: hasProperty_def objectPrototype_def)

lemma getProperty_own: "map_of kvs k = Some v \<Longrightarrow> getProperty kvs k = JsJson v"
  by (simp add: getProperty_def)

lemma map_of_mem: "map_of kvs k = Some v \<Longrightarrow> k \<in> fst ` set kvs"
  by (metis domI dom_map_of_conv_image_fst)

lemma mem_map_of: "k \<in> fst ` set kvs \<Longrightarrow> \<exists>v. map_of kvs k = Some v"
  by (metis domD dom_map_of_conv_image_fst)

lemma mapThrowing_Inr_iff:
  "(mapThrowing f xs = Inr ys) = list_all2 (\<lambda>x y. f x = Inr y) xs ys"
proof (induction xs arbitrary: ys)
  case Nil
  then show ?case by auto
next
  case (Cons x xs)
  show ?case
    by (cases ys) (auto simp: Cons.IH [symmetric] split: sum.splits)
qed

lemma mapThrowing_Inl: "mapThrowing f xs = Inl e \<Longrightarrow> \<exists>x\<in>set xs. f x = Inl e"
  by (induction xs) (auto split: sum.splits)

lemma mapThrowing_fails: "x \<in> set xs \<Longrightarrow> f x = Inl e \<Longrightarrow> \<exists>e'. mapThrowing f xs = Inl e'"
  by (induction xs) (auto split: sum.splits)

lemma parseAndDecode_Inr:
  assumes "parseAndDecode rt token = Inr d"
  shows "\<exists>arrays. list_all2 (\<lambda>seg bytes. convertBase64urlToUint8Array rt seg = Inr bytes)
                     (jsSplit (CHR ''.'') token) arrays
           \<and> length arrays = 3
           \<and> jsonParse rt (textDecode rt (arrays ! 0)) = Inr (maybeHeader d)
           \<and> jsonParse rt (textDecode rt (arrays ! 1)) = Inr (maybePayload d)
           \<and> maybeSignature d = JStr (convertUint8ArrayToHex rt (arrays ! 2))"
proof -
  from assms obtain arrays parsed where
    a: "mapThrowing (convertBase64urlToUint8Array rt) (jsSplit (CHR ''.'') token) = Inr arrays"
    and p: "mapThrowing (decodeSegment rt) (enumerate 0 arrays) = Inr parsed"
    and l: "length parsed = 3"
    and d: "d = \<lparr>maybeHeader = parsed ! 0, maybePayload = parsed ! 1, maybeSignature = parsed ! 2\<rparr>"
    by (auto simp: parseAndDecode_def split: sum.splits if_splits)
  from p have p2: "list_all2 (\<lambda>x y. decodeSegment rt x = Inr y) (enumerate 0 arrays) parsed"
    by (simp add: mapThrowing_Inr_iff)
  then have la: "length arrays = 3"
    using l by (auto dest: list_all2_lengthD)
  have nth: "\<And>i. i < 3 \<Longrightarrow> decodeSegment rt (i, arrays ! i) = Inr (parsed ! i)"
    using p2 la by (auto simp: list_all2_conv_all_nth nth_enumerate_eq)
  have "decodeSegment rt (0, arrays ! 0) = Inr (parsed ! 0)"
    "decodeSegment rt (1, arrays ! 1) = Inr (parsed ! 1)"
    "decodeSegment rt (2, arrays ! 2) = Inr (parsed ! 2)"
    using nth[of 0] nth[of 1] nth[of 2] by simp_all
  then show ?thesis
    using a la d by (auto simp: mapThrowing_Inr_iff decodeSegment_def)
qed

lemma parseAndDecode_three:
  "parseAndDecode rt token = Inr d \<Longrightarrow> length (jsSplit (CHR ''.'') token) = 3"
  by (drule parseAndDecode_Inr) (auto dest: list_all2_lengthD)

lemma parseAndDecode_signature:
  "parseAndDecode rt token = Inr d \<Longrightarrow> \<exists>s. maybeSignature d = JStr s"
  by (drule parseAndDecode_Inr) auto

lemma parseAndDecode_Inl:
  assumes "parseAndDecode rt token = Inl e"
  shows "(\<exists>seg. convertBase64urlToUint8Array rt seg = Inl e)
       \<or> (\<exists>text. jsonParse rt text = Inl e)
       \<or> e = ErrorObject ''TypeError'' ''invalid serialization''"
  using assms
  by (auto simp: parseAndDecode_def decodeSegment_def split: sum.splits if_splits
      dest!: mapThrowing_Inl)

subsection \<open>The sample runtime on the sample tokens\<close>

lemma jsSplit_none: "sep \<notin> set s \<Longrightarrow> jsSplit sep s = [s]"
  by (induction s) auto

lemma jsSplit_append:
  "sep \<notin> set s \<Longrightarrow> jsSplit sep (s @ sep # rest) = s # jsSplit sep rest"
  by (induction s) auto

lemmas segment_defs =
  plainHeaderSegment_def reservedHeaderSegment_def extensionHeaderSegment_def
  issuerPayloadSegment_def expiredPayloadSegment_def goodSignatureSegment_def
  badSignatureSegment_def typeHeaderSegment_def

lemmas bytes_defs =
  plainHeaderBytes_def reservedHeaderBytes_def extensionHeaderBytes_def
  issuerPayloadBytes_def expiredPayloadBytes_def goodSignatureBytes_def
  badSignatureBytes_def typeHeaderBytes_def

lemmas text_defs =
  plainHeaderText_def reservedHeaderText_def extensionHeaderText_def
  issuerPayloadText_def expiredPayloadText_def typeHeaderText_def

lemma no_dot:
  "CHR ''.'' \<notin> set plainHeaderSegment" "CHR ''.'' \<notin> set reservedHeaderSegment"
  "CHR ''.'' \<notin> set extensionHeaderSegment" "CHR ''.'' \<notin> set issuerPayloadSegment"
  "CHR ''.'' \<notin> set expiredPayloadSegment" "CHR ''.'' \<notin> set goodSignatureSegment"
  "CHR ''.'' \<notin> set badSignatureSegment" "CHR ''.'' \<notin> set typeHeaderSegment"
  by (simp_all add: segment_defs)

lemma sampleDecoder_simps:
  "sampleDecoder plainHeaderSegment = Inr plainHeaderBytes"
  "sampleDecoder reservedHeaderSegment = Inr reservedHeaderBytes"
  "sampleDecoder extensionHeaderSegment = Inr extensionHeaderBytes"
  "sampleDecoder issuerPayloadSegment = Inr issuerPayloadBytes"
  "sampleDecoder expiredPayloadSegment = Inr expiredPayloadBytes"
  "sampleDecoder goodSignatureSegment = Inr goodSignatureBytes"
  "sampleDecoder badSignatureSegment = Inr badSignatureBytes"
  "sampleDecoder typeHeaderSegment = Inr typeHeaderBytes"
  by (simp_all add: sampleDecoder_def segment_defs)

lemma sampleTextDecoder_simps:
  "sampleTextDecoder plainHeaderBytes = plainHeaderText"
  "sampleTextDecoder reservedHeaderBytes = reservedHeaderText"
  "sampleTextDecoder extensionHeaderBytes = extensionHeaderText"
  "sampleTextDecoder issuerPayloadBytes = issuerPayloadText"
  "sampleTextDecoder expiredPayloadBytes = expiredPayloadText"
  "sampleTextDecoder typeHeaderBytes = typeHeaderText"
  by (simp_all add: sampleTextDecoder_def bytes_defs)

lemma sampleJsonParse_simps:
  "sampleJsonParse plainHeaderText = Inr plainHeader"
  "sampleJsonParse reservedHeaderText = Inr reservedHeader"
  "sampleJsonParse extensionHeaderText = Inr extensionHeader"
  "sampleJsonParse issuerPayloadText = Inr issuerPayload"
  "sampleJsonParse expiredPayloadText = Inr expiredPayload"
  "sampleJsonParse typeHeaderText = Inr typeHeader"
  by (simp_all add: sampleJsonParse_def text_defs)

lemma sampleHex_simps:
  "sampleHex goodSignatureBytes = goodSignatureHex"
  "sampleHex badSignatureBytes = badSignatureHex"
  by (simp_all add: sampleHex_def bytes_defs)

lemma sampleRuntime_simps:
  "convertBase64urlToUint8Array sampleRuntime = sampleDecoder"
  "convertUint8ArrayToHex sampleRuntime = sampleHex"
  "textDecode sampleRuntime = sampleTextDecoder"
  "jsonParse sampleRuntime = sampleJsonParse"
  "makeJwt sampleRuntime = sampleMakeJwt"
  "dateNow sampleRuntime = 1600000000000"
  "newDate sampleRuntime = 1600000000001"
  by (simp_all add: sampleRuntime_def)

lemma parseAndDecode_segments:
  assumes "CHR ''.'' \<notin> set h" "CHR ''.'' \<notin> set p" "CHR ''.'' \<notin> set s"
    and "convertBase64urlToUint8Array rt h = Inr hb"
    and "convertBase64urlToUint8Array rt p = Inr pb"
    and "convertBase64urlToUint8Array rt s = Inr sb"
    and "jsonParse rt (textDecode rt hb) = Inr hv"
    and "jsonParse rt (textDecode rt pb) = Inr pv"
  shows "parseAndDecode rt (h @ ''.'' @ p @ ''.'' @ s)
         = Inr \<lparr>maybeHeader = hv, maybePayload = pv,
                 maybeSignature = JStr (convertUint8ArrayToHex rt sb)\<rparr>"
  using assms
  by (simp add: parseAndDecode_def jsSplit_append jsSplit_none decodeSegment_def)

lemmas sample_simps =
  no_dot sampleRuntime_simps sampleDecoder_simps sampleTextDecoder_simps
  sampleJsonParse_simps sampleHex_simps

lemma parse_validToken:
  "parseAndDecode sampleRuntime validToken
   = Inr \<lparr>maybeHeader = plainHeader, maybePayload = issuerPayload,
           maybeSignature = JStr goodSignatureHex\<rparr>"
  using parseAndDecode_segments [where rt = sampleRuntime and h = plainHeaderSegment
      and p = issuerPayloadSegment and s = goodSignatureSegment and hb = plainHeaderBytes
      and pb = issuerPayloadBytes and sb = goodSignatureBytes]
  by (simp add: validToken_def sample_simps)

lemma parse_tamperedToken:
  "parseAndDecode sampleRuntime tamperedToken
   = Inr \<lparr>maybeHeader = plainHeader, maybePayload = issuerPayload,
           maybeSignature = JStr badSignatureHex\<rparr>"
  using parseAndDecode_segments [where rt = sampleRuntime and h = plainHeaderSegment
      and p = issuerPayloadSegment and s = badSignatureSegment and hb = plainHeaderBytes
      and pb = issuerPayloadBytes and sb = badSignatureBytes]
  by (simp add: tamperedToken_def sample_simps)

lemma parse_expiredTypeToken:
  "parseAndDecode sampleRuntime expiredTypeToken
   = Inr \<lparr>maybeHeader = typeHeader, maybePayload = expiredPayload,
           maybeSignature = JStr goodSignatureHex\<rparr>"
  using parseAndDecode_segments [where rt = sampleRuntime and h = typeHeaderSegment
      and p = expiredPayloadSegment and s = goodSignatureSegment and hb = typeHeaderBytes
      and pb = expiredPayloadBytes and sb = goodSignatureBytes]
  by (simp add: expiredTypeToken_def sample_simps)

lemma validate_expiredType:
  "validateJwtObject sampleRuntime
     \<lparr>maybeHeader = typeHeader, maybePayload = expiredPayload, maybeSignature = JStr sig\<rparr>
   = Inl (ErrorObject ''ReferenceError'' ''header parameter 'alg' is not a string'')"
  by (simp add: validateJwtObject_def typeHeader_def expiredPayload_def isObject_def
      hasProperty_def getProperty_def objectPrototype_def)

lemma parse_expiredToken:
  "parseAndDecode sampleRuntime expiredToken
   = Inr \<lparr>maybeHeader = plainHeader, maybePayload = expiredPayload,
           maybeSignature = JStr goodSignatureHex\<rparr>"
  using parseAndDecode_segments [where rt = sampleRuntime and h = plainHeaderSegment
      and p = expiredPayloadSegment and s = goodSignatureSegment and hb = plainHeaderBytes
      and pb = expiredPayloadBytes and sb = goodSignatureBytes]
  by (simp add: expiredToken_def sample_simps)

lemma parse_reservedToken:
  "parseAndDecode sampleRuntime reservedToken
   = Inr \<lparr>maybeHeader = reservedHeader, maybePayload = issuerPayload,
           maybeSignature = JStr goodSignatureHex\<rparr>"
  using parseAndDecode_segments [where rt = sampleRuntime and h = reservedHeaderSegment
      and p = issuerPayloadSegment and s = goodSignatureSegment and hb = reservedHeaderBytes
      and pb = issuerPayloadBytes and sb = goodSignatureBytes]
  by (simp add: reservedToken_def sample_simps)

lemma parse_expiredReservedToken:
  "parseAndDecode sampleRuntime expiredReservedToken
   = Inr \<lparr>maybeHeader = reservedHeader, maybePayload = expiredPayload,
           maybeSignature = JStr goodSignatureHex\<rparr>"
  using parseAndDecode_segments [where rt = sampleRuntime and h = reservedHeaderSegment
      and p = expiredPayloadSegment and s = goodSignatureSegment and hb = reservedHeaderBytes
      and pb = expiredPayloadBytes and sb = goodSignatureBytes]
  by (simp add: expiredReservedToken_def sample_simps)

lemma parse_extensionToken:
  "parseAndDecode sampleRuntime extensionToken
   = Inr \<lparr>maybeHeader = extensionHeader, maybePayload = issuerPayload,
           maybeSignature = JStr goodSignatureHex\<rparr>"
  using parseAndDecode_segments [where rt = sampleRuntime and h = extensionHeaderSegment
      and p = issuerPayloadSegment and s = goodSignatureSegment and hb = extensionHeaderBytes
      and pb = issuerPayloadBytes and sb = goodSignatureBytes]
  by (simp add: extensionToken_def sample_simps)

lemma parse_twoSegments:
  "parseAndDecode sampleRuntime twoSegments
   = Inl (ErrorObject ''TypeError'' ''invalid serialization'')"
  by (simp add: twoSegments_def parseAndDecode_def jsSplit_append jsSplit_none
      decodeSegment_def sample_simps)

lemma validate_plain:
  "validateJwtObject sampleRuntime
     \<lparr>maybeHeader = plainHeader, maybePayload = issuerPayload, maybeSignature = JStr sig\<rparr>
   = Inr \<lparr>header = properties plainHeader, payload = issuerPayload, signature = sig\<rparr>"
  by (simp add: validateJwtObject_def plainHeader_def issuerPayload_def isObject_def
      hasProperty_def getProperty_def objectPrototype_def)

lemma validate_extension:
  "validateJwtObject sampleRuntime
     \<lparr>maybeHeader = extensionHeader, maybePayload = issuerPayload, maybeSignature = JStr sig\<rparr>
   = Inr \<lparr>header = properties extensionHeader, payload = issuerPayload, signature = sig\<rparr>"
  by (simp add: validateJwtObject_def extensionHeader_def issuerPayload_def isObject_def
      hasProperty_def getProperty_def objectPrototype_def)

lemma validate_reserved:
  "validateJwtObject sampleRuntime
     \<lparr>maybeHeader = reservedHeader, maybePayload = issuerPayload, maybeSignature = JStr sig\<rparr>
   = Inr \<lparr>header = properties reservedHeader, payload = issuerPayload, signature = sig\<rparr>"
  by (simp add: validateJwtObject_def reservedHeader_def issuerPayload_def isObject_def
      hasProperty_def getProperty_def objectPrototype_def)


subsection \<open>The orchestrator, stage by stage\<close>

lemma catchBlock_ErrorObject:
  "catchBlock rt v (ErrorObject n msg)
   = Fulfilled (Invalid (jwt v) (newJwtError rt (Some msg)) (msg = ''the jwt is expired''))"
  by (simp add: catchBlock_def)

lemma catchBlock_ordinary:
  "\<exists>msg. msg \<noteq> Some ''the jwt is expired''
     \<and> catchBlock rt v e = Fulfilled (Invalid (jwt v) (newJwtError rt msg) False)"
  if "ordinary e"
proof (cases e)
  case (ErrorObject n msg)
  with that show ?thesis
    by (intro exI [of _ "Some msg"]) (simp add: catchBlock_def)
next
  case NoMessage
  then show ?thesis
    by (intro exI [of _ None]) (simp add: catchBlock_def)
qed (use that in simp_all)

lemma validateJwt_decoding:
  "parseAndDecode rt (jwt v) = Inl e \<Longrightarrow> validateJwt rt v = catchBlock rt v e"
  by (simp add: validateJwt_def tryBlock_def)

lemma validateJwt_structure:
  "parseAndDecode rt (jwt v) = Inr m \<Longrightarrow> validateJwtObject rt m = Inl e
   \<Longrightarrow> validateJwt rt v = catchBlock rt v e"
  by (simp add: validateJwt_def tryBlock_def)

lemma validateJwt_dispatch:
  "parseAndDecode rt (jwt v) = Inr m \<Longrightarrow> validateJwtObject rt m = Inr obj
   \<Longrightarrow> snd (handleJwtObject obj (critHandlers v)) = Rejected e
   \<Longrightarrow> validateJwt rt v = catchBlock rt v e"
  by (simp add: validateJwt_def tryBlock_def)

lemma validateJwt_pending:
  "parseAndDecode rt (jwt v) = Inr m \<Longrightarrow> validateJwtObject rt m = Inr obj
   \<Longrightarrow> snd (handleJwtObject obj (critHandlers v)) = Pending
   \<Longrightarrow> validateJwt rt v = Pending"
  by (simp add: validateJwt_def tryBlock_def)

subsection \<open>The dispatcher of critical extensions\<close>

lemma wellFormed_element:
  "(typeofJson x = TString \<and> \<not> falsy (JsJson x)) = nonEmptyString x"
  by (cases x) simp_all

lemma wellFormed_iff:
  "(isArray c \<and> \<not> list_ex (\<lambda>str. typeof str \<noteq> TString \<or> falsy str) (elements c))
   = arrayOfNonEmptyStrings c"
proof (cases c)
  case (JsJson v)
  then show ?thesis
    by (cases v) (simp_all add: list_ex_iff list_all_iff wellFormed_element)
qed simp_all

lemma arrayOfNonEmptyStrings_names:
  assumes "arrayOfNonEmptyStrings c"
  shows "c = JsJson (JArr (map JStr (map stringOf (elements c))))"
proof -
  from assms obtain xs where c: "c = JsJson (JArr xs)" and all: "list_all nonEmptyString xs"
    by (cases c rule: arrayOfNonEmptyStrings.cases) simp_all
  have "x = JStr (stringOf (JsJson x))" if "nonEmptyString x" for x
    using that by (cases x) simp_all
  then have "xs = map JStr (map stringOf (map JsJson xs))"
    using all by (induction xs) simp_all
  then show ?thesis using c by simp
qed

lemma checkHeaderCrit_malformed:
  "\<not> arrayOfNonEmptyStrings (getProperty hdr ''crit'') \<Longrightarrow>
   checkHeaderCrit hdr handlers
   = ([], Inl (ErrorObject ''Error''
                 ''header parameter 'crit' must be an array of non-empty strings''))"
  using wellFormed_iff [of "getProperty hdr ''crit''"]
  by (auto simp: checkHeaderCrit_def Let_def)

lemma checkHeaderCrit_wellFormed:
  "arrayOfNonEmptyStrings (getProperty hdr ''crit'') \<Longrightarrow>
   checkHeaderCrit hdr handlers
   = (if list_ex (\<lambda>n. n \<in> set reservedWords) (critNames hdr)
      then ([], Inl (ErrorObject ''Error''
              ''the 'crit' list contains a non-extension header parameter''))
      else if list_ex (\<lambda>n. typeof (getProperty hdr n) = TUndefined
                          \<or> \<not> isFunction (getHandler handlers n)) (critNames hdr)
      then ([], Inl (ErrorObject ''Error''
              ''critical extension header parameters are not understood''))
      else (case callHandlers handlers hdr (critNames hdr) of
              (calls, Inl e) \<Rightarrow> (calls, Inl e)
            | (calls, Inr rs) \<Rightarrow> (calls, Inr (promiseAll rs))))"
  using wellFormed_iff [of "getProperty hdr ''crit''"]
  by (simp add: checkHeaderCrit_def Let_def critNames_def list_ex_iff)

lemma callHandlers_Inr:
  "callHandlers handlers hdr names = (calls, Inr rs) \<Longrightarrow>
   calls = map (\<lambda>n. (n, getProperty hdr n)) names
   \<and> list_all2 (\<lambda>n r. \<exists>f. getHandler handlers n = Function f
                          \<and> f (getProperty hdr n) = Returns r) names rs"
proof (induction names arbitrary: calls rs)
  case Nil
  then show ?case by simp
next
  case (Cons n names)
  then show ?case
    by (auto split: property.splits called.splits prod.splits sum.splits)
qed

lemma callHandlers_Inl:
  "callHandlers handlers hdr names = (calls, Inl e) \<Longrightarrow>
   (e = notCallable \<and> (\<exists>n\<in>set names. getHandler handlers n = NoFunction))
   \<or> (calls \<noteq> [] \<and> (\<exists>n\<in>set names. \<exists>f. getHandler handlers n = Function f
                          \<and> f (getProperty hdr n) = Throws e))"
proof (induction names arbitrary: calls)
  case Nil
  then show ?case by simp
next
  case (Cons n names)
  then show ?case
    by (auto split: property.splits called.splits prod.splits sum.splits)
qed

lemma firstRejection_None: "(firstRejection rs = None) = (\<forall>t e. RejectsAt t e \<notin> set rs)"
proof (induction rs)
  case Nil
  then show ?case by simp
next
  case (Cons r rs)
  then show ?case
    by (cases r) (auto split: option.splits)
qed

lemma firstRejection_Some: "firstRejection rs = Some (t, e) \<Longrightarrow> RejectsAt t e \<in> set rs"
proof (induction rs arbitrary: t e)
  case Nil
  then show ?case by simp
next
  case (Cons r rs)
  then show ?case
    by (cases r) (auto split: option.splits if_splits)
qed

lemma fulfilments_Some: "(fulfilments rs = Some vs) = (rs = map Value vs)"
proof (induction rs arbitrary: vs)
  case Nil
  then show ?case by auto
next
  case (Cons r rs)
  then show ?case
    by (cases r; cases vs) auto
qed

lemma fulfilments_None:
  "fulfilments rs = None \<Longrightarrow> NeverSettles \<in> set rs \<or> (\<exists>t e. RejectsAt t e \<in> set rs)"
proof (induction rs)
  case Nil
  then show ?case by simp
next
  case (Cons r rs)
  then show ?case
    by (cases r) auto
qed

lemma promiseAll_Fulfilled: "(promiseAll rs = Fulfilled vs) = (rs = map Value vs)"
proof
  assume "promiseAll rs = Fulfilled vs"
  then show "rs = map Value vs"
    by (auto simp: promiseAll_def fulfilments_Some split: option.splits)
next
  assume "rs = map Value vs"
  then have "firstRejection rs = None" "fulfilments rs = Some vs"
    by (auto simp: firstRejection_None fulfilments_Some)
  then show "promiseAll rs = Fulfilled vs"
    by (simp add: promiseAll_def)
qed

lemma promiseAll_Rejected:
  "(\<exists>e. promiseAll rs = Rejected e) = (\<exists>t e. RejectsAt t e \<in> set rs)"
  by (auto simp: promiseAll_def firstRejection_None split: option.splits
      dest: firstRejection_Some)

lemma promiseAll_Rejected_mem:
  "promiseAll rs = Rejected e \<Longrightarrow> \<exists>t. RejectsAt t e \<in> set rs"
  by (auto simp: promiseAll_def split: option.splits dest: firstRejection_Some)

lemma promiseAll_Pending: "promiseAll rs = Pending \<Longrightarrow> NeverSettles \<in> set rs"
  by (auto simp: promiseAll_def firstRejection_None split: option.splits
      dest: fulfilments_None)


lemma validateJwtObject_Inl:
  "validateJwtObject rt m = Inl e \<Longrightarrow>
   e \<in> {ErrorObject ''ReferenceError'' ''the signature is no string'',
        ErrorObject ''ReferenceError'' ''header parameter 'alg' is not a string'',
        ErrorObject ''RangeError'' ''claim 'exp' is not a number'',
        ErrorObject ''RangeError'' ''the jwt is expired''}"
  by (auto simp: validateJwtObject_def Let_def split: if_splits)

lemma validateJwtObject_Inr:
  assumes "validateJwtObject rt m = Inr obj"
  shows "maybeHeader m = JObj (header obj) \<and> payload obj = maybePayload m
       \<and> maybeSignature m = JStr (signature obj)
       \<and> (\<exists>a. map_of (header obj) ''alg'' = Some (JStr a))"
proof -
  from assms have sig: "typeofJson (maybeSignature m) = TString"
    and hdr: "isObject (maybeHeader m)"
    and alg: "hasProperty ''alg'' (properties (maybeHeader m))"
      "typeof (getProperty (properties (maybeHeader m)) ''alg'') = TString"
    and obj: "obj = \<lparr>header = properties (maybeHeader m), payload = maybePayload m,
                     signature = stringOf (JsJson (maybeSignature m))\<rparr>"
    by (auto simp: validateJwtObject_def Let_def split: if_splits)
  from sig have s: "maybeSignature m = JStr (stringOf (JsJson (maybeSignature m)))"
    by (cases "maybeSignature m") simp_all
  from hdr obtain kvs where k: "maybeHeader m = JObj kvs"
    by (auto simp: isObject_iff)
  from alg k have "''alg'' \<in> fst ` set kvs"
    by (simp add: hasProperty_alg)
  then have "\<exists>x. map_of kvs ''alg'' = Some x"
    by (rule mem_map_of)
  then obtain x where x: "map_of kvs ''alg'' = Some x" ..
  with alg k have "typeofJson x = TString"
    by (simp add: getProperty_own)
  then obtain a where "x = JStr a"
    by (cases x) simp_all
  with x k s obj show ?thesis by simp
qed

lemma handleJwtObject_throw:
  "hasProperty ''crit'' (header obj) \<Longrightarrow> checkHeaderCrit (header obj) handlers = (calls, Inl e)
   \<Longrightarrow> handleJwtObject obj handlers = (calls, Rejected e)"
  by (simp add: handleJwtObject_def)

subsection \<open>The sample handlers\<close>

lemma critNames_extension: "critNames (properties extensionHeader) = [''ext'']"
  by (simp add: critNames_def extensionHeader_def getProperty_def)

lemma dispatch_extension:
  "checkHeaderCrit (properties extensionHeader) (handlersDoing outcome)
   = (case outcome of
        Throws e \<Rightarrow> ([(''ext'', JsJson (JBool True))], Inl e)
      | Returns r \<Rightarrow> ([(''ext'', JsJson (JBool True))], Inr (promiseAll [r])))"
  by (simp add: checkHeaderCrit_def extensionHeader_def getProperty_def reservedWords_def
      handlersDoing_def getHandler_def Let_def split: called.splits)

lemma handle_extension:
  "handleJwtObject \<lparr>header = properties extensionHeader, payload = pl, signature = sig\<rparr>
     (handlersDoing outcome)
   = ([(''ext'', JsJson (JBool True))],
      case outcome of
        Throws e \<Rightarrow> Rejected e
      | Returns (Value x) \<Rightarrow>
          Fulfilled (\<lparr>header = properties extensionHeader, payload = pl, signature = sig\<rparr>,
                     Some [x])
      | Returns (RejectsAt t e) \<Rightarrow> Rejected e
      | Returns NeverSettles \<Rightarrow> Pending)"
  by (simp add: handleJwtObject_def dispatch_extension promiseAll_def
      split: called.splits returned.splits)
    (simp add: extensionHeader_def hasProperty_def)

subsection \<open>Reserved words and the sample tokens that fail\<close>

lemma reservedWords_set:
  "set reservedWords
   = {''alg'', ''jku'', ''jwk'', ''kid'', ''x5u'', ''x5c'', ''x5t'', ''x5t#S256'', ''typ'',
      ''cty'', ''crit'', ''enc'', ''zip'', ''epk'', ''apu'', ''apv'', ''iv'', ''tag'', ''p2s'',
      ''p2c''}"
  by (simp add: reservedWords_def)

lemma checkHeaderCrit_reserved:
  assumes "getProperty hdr ''crit'' = JsJson (JArr xs)"
    and "w \<in> set reservedWords" and "JStr w \<in> set xs"
  shows "checkHeaderCrit hdr handlers
         \<in> {([], Inl (ErrorObject ''Error''
                 ''header parameter 'crit' must be an array of non-empty strings'')),
             ([], Inl (ErrorObject ''Error''
                 ''the 'crit' list contains a non-extension header parameter''))}"
proof (cases "arrayOfNonEmptyStrings (getProperty hdr ''crit'')")
  case True
  from assms have "w \<in> set (critNames hdr)"
    by (force simp: critNames_def)
  with assms(2) have "list_ex (\<lambda>n. n \<in> set reservedWords) (critNames hdr)"
    by (auto simp: list_ex_iff)
  with True show ?thesis
    by (simp add: checkHeaderCrit_wellFormed)
next
  case False
  then show ?thesis
    by (simp add: checkHeaderCrit_malformed)
qed

lemma validate_sample:
  "validateJwtObject sampleRuntime
     \<lparr>maybeHeader = plainHeader, maybePayload = issuerPayload, maybeSignature = JStr sig\<rparr>
   = Inr \<lparr>header = properties plainHeader, payload = issuerPayload, signature = sig\<rparr>"
  "validateJwtObject sampleRuntime
     \<lparr>maybeHeader = extensionHeader, maybePayload = issuerPayload, maybeSignature = JStr sig\<rparr>
   = Inr \<lparr>header = properties extensionHeader, payload = issuerPayload, signature = sig\<rparr>"
  "validateJwtObject sampleRuntime
     \<lparr>maybeHeader = reservedHeader, maybePayload = issuerPayload, maybeSignature = JStr sig\<rparr>
   = Inr \<lparr>header = properties reservedHeader, payload = issuerPayload, signature = sig\<rparr>"
  "validateJwtObject sampleRuntime
     \<lparr>maybeHeader = reservedHeader, maybePayload = expiredPayload, maybeSignature = JStr sig\<rparr>
   = Inl (ErrorObject ''RangeError'' ''the jwt is expired'')"
  "validateJwtObject sampleRuntime
     \<lparr>maybeHeader = plainHeader, maybePayload = expiredPayload, maybeSignature = JStr sig\<rparr>
   = Inl (ErrorObject ''RangeError'' ''the jwt is expired'')"
  by (simp_all add: validateJwtObject_def plainHeader_def extensionHeader_def
      reservedHeader_def issuerPayload_def expiredPayload_def isObject_def hasProperty_def
      getProperty_def objectPrototype_def isExpired_def sampleRuntime_simps)

lemma dispatch_reserved:
  "checkHeaderCrit (properties reservedHeader) handlers
   = ([], Inl (ErrorObject ''Error''
                 ''the 'crit' list contains a non-extension header parameter''))"
  by (simp add: checkHeaderCrit_def reservedHeader_def getProperty_def reservedWords_def)

lemma validateJwt_reservedToken:
  "validateJwt sampleRuntime (sampleRequest reservedToken handlers)
   = Fulfilled (Invalid reservedToken
       \<lparr>message = Some ''the 'crit' list contains a non-extension header parameter'',
        name = ''JwtError'', date = 1600000000001\<rparr> False)"
proof -
  let ?obj = "\<lparr>header = properties reservedHeader, payload = issuerPayload,
                signature = goodSignatureHex\<rparr>"
  have "handleJwtObject ?obj handlers
        = ([], Rejected (ErrorObject ''Error''
                 ''the 'crit' list contains a non-extension header parameter''))"
    by (rule handleJwtObject_throw)
      (simp_all add: dispatch_reserved, simp add: reservedHeader_def hasProperty_def)
  then show ?thesis
    using validateJwt_dispatch [where rt = sampleRuntime
        and v = "sampleRequest reservedToken handlers" and obj = ?obj,
        OF _ validate_sample(3)]
    by (simp add: sampleRequest_def parse_reservedToken catchBlock_ErrorObject
        newJwtError_def sampleRuntime_simps)
qed

subsection \<open>Tokens that do not decode\<close>

lemma parseAndDecode_fails:
  assumes "length (jsSplit (CHR ''.'') token) \<noteq> 3 \<or> \<not> decodable rt token"
  shows "\<exists>e. parseAndDecode rt token = Inl e"
proof (rule ccontr)
  assume "\<not> (\<exists>e. parseAndDecode rt token = Inl e)"
  then obtain d where d: "parseAndDecode rt token = Inr d"
    by (cases "parseAndDecode rt token") auto
  from parseAndDecode_Inr [OF d] obtain arrays where
    l: "list_all2 (\<lambda>seg bytes. convertBase64urlToUint8Array rt seg = Inr bytes)
          (jsSplit (CHR ''.'') token) arrays"
    and n: "length arrays = 3"
    and h: "jsonParse rt (textDecode rt (arrays ! 0)) = Inr (maybeHeader d)"
    and p: "jsonParse rt (textDecode rt (arrays ! 1)) = Inr (maybePayload d)"
    by blast
  from l n have three: "length (jsSplit (CHR ''.'') token) = 3"
    by (auto dest: list_all2_lengthD)
  have "decodable rt token"
    unfolding decodable_def list_all_length
  proof (intro allI impI)
    fix i assume "i < length (enumerate 0 (jsSplit (CHR ''.'') token))"
    then have i: "i < 3" using three by simp
    then have b: "convertBase64urlToUint8Array rt (jsSplit (CHR ''.'') token ! i)
               = Inr (arrays ! i)"
      using l three by (auto simp: list_all2_conv_all_nth)
    from i have "i = 0 \<or> i = 1 \<or> i = 2" by auto
    then show "case enumerate 0 (jsSplit (CHR ''.'') token) ! i of
       (index, segment) \<Rightarrow>
         (case convertBase64urlToUint8Array rt segment of
            Inl e \<Rightarrow> False
          | Inr bytes \<Rightarrow> index = 2 \<or> \<not> isl (jsonParse rt (textDecode rt bytes)))"
      using i three b h p by (auto simp: nth_enumerate_eq)
  qed
  with three assms show False by simp
qed

lemma sampleRuntime_ordinary: "ordinaryFailures sampleRuntime"
  by (auto simp: ordinaryFailures_def sampleRuntime_simps sampleDecoder_def sampleJsonParse_def
      split: option.splits)

subsection \<open>The last steps of the orchestrator\<close>

lemma handleJwtObject_same:
  "snd (handleJwtObject obj handlers) = Fulfilled (obj', outputs) \<Longrightarrow> obj' = obj"
  by (auto simp: handleJwtObject_def split: if_splits prod.splits sum.splits promise.splits)

lemma handleJwtObject_no_crit:
  "''crit'' \<notin> fst ` set (header obj) \<Longrightarrow>
   handleJwtObject obj handlers = ([], Fulfilled (obj, None))"
  by (simp add: handleJwtObject_def hasProperty_crit)

lemma validateJwt_gate:
  "parseAndDecode rt (jwt v) = Inr m \<Longrightarrow> validateJwtObject rt m = Inr obj
   \<Longrightarrow> snd (handleJwtObject obj (critHandlers v)) = Fulfilled (obj', outputs)
   \<Longrightarrow> \<not> validateAlgorithm (algorithm v) (stringOf (getProperty (header obj') ''alg''))
   \<Longrightarrow> validateJwt rt v
       = Fulfilled (Invalid (jwt v)
           (newJwtError rt
              (Some (''no matching algorithm: '' @ stringOf (getProperty (header obj') ''alg''))))
           False)"
  by (simp add: validateJwt_def tryBlock_def catchBlock_ErrorObject)

lemma validateJwt_mismatch:
  "parseAndDecode rt (jwt v) = Inr m \<Longrightarrow> validateJwtObject rt m = Inr obj
   \<Longrightarrow> snd (handleJwtObject obj (critHandlers v)) = Fulfilled (obj', outputs)
   \<Longrightarrow> validateAlgorithm (algorithm v) (stringOf (getProperty (header obj') ''alg''))
   \<Longrightarrow> makeJwt rt obj' (key v) = Inr resigned
   \<Longrightarrow> parseAndDecode rt resigned = Inr fresh
   \<Longrightarrow> maybeSignature fresh \<noteq> maybeSignature m
   \<Longrightarrow> validateJwt rt v
       = Fulfilled (Invalid (jwt v) (newJwtError rt (Some ''signatures don't match'')) False)"
  by (frule handleJwtObject_same, frule validateJwtObject_Inr)
    (auto simp: validateJwt_def tryBlock_def catchBlock_ErrorObject)

lemma validateJwt_valid:
  "parseAndDecode rt (jwt v) = Inr m \<Longrightarrow> validateJwtObject rt m = Inr obj
   \<Longrightarrow> snd (handleJwtObject obj (critHandlers v)) = Fulfilled (obj', outputs)
   \<Longrightarrow> validateAlgorithm (algorithm v) (stringOf (getProperty (header obj') ''alg''))
   \<Longrightarrow> makeJwt rt obj' (key v) = Inr resigned
   \<Longrightarrow> parseAndDecode rt resigned = Inr fresh
   \<Longrightarrow> maybeSignature fresh = maybeSignature m
   \<Longrightarrow> validateJwt rt v = Fulfilled (Valid obj' (jwt v) outputs)"
  by (frule handleJwtObject_same, frule validateJwtObject_Inr)
    (auto simp: validateJwt_def tryBlock_def)

lemma catchBlock_not_Valid: "catchBlock rt v e \<noteq> Fulfilled (Valid obj j outputs)"
  by (simp add: catchBlock_def split: sum.splits)

lemma validateJwt_Valid:
  assumes "validateJwt rt v = Fulfilled (Valid obj j outputs)"
  shows "\<exists>m resigned fresh.
           parseAndDecode rt (jwt v) = Inr m \<and> validateJwtObject rt m = Inr obj
           \<and> snd (handleJwtObject obj (critHandlers v)) = Fulfilled (obj, outputs)
           \<and> validateAlgorithm (algorithm v) (stringOf (getProperty (header obj) ''alg''))
           \<and> makeJwt rt obj (key v) = Inr resigned
           \<and> parseAndDecode rt resigned = Inr fresh
           \<and> maybeSignature fresh = JStr (signature obj)
           \<and> j = jwt v"
proof -
  from assms have t: "tryBlock rt v = Fulfilled (Valid obj j outputs)"
    by (auto simp: validateJwt_def catchBlock_not_Valid split: promise.splits)
  then obtain m where m: "parseAndDecode rt (jwt v) = Inr m"
    by (auto simp: tryBlock_def split: sum.splits)
  with t obtain validated where o: "validateJwtObject rt m = Inr validated"
    by (auto simp: tryBlock_def split: sum.splits)
  with t m obtain obj' outs where
    h: "snd (handleJwtObject validated (critHandlers v)) = Fulfilled (obj', outs)"
    by (auto simp: tryBlock_def split: promise.splits)
  then have same: "obj' = validated"
    by (rule handleJwtObject_same)
  from t m o h same show ?thesis
    by (auto simp: tryBlock_def split: sum.splits if_splits)
qed

lemma handle_plain:
  "handleJwtObject \<lparr>header = properties plainHeader, payload = pl, signature = sig\<rparr> handlers
   = ([], Fulfilled (\<lparr>header = properties plainHeader, payload = pl, signature = sig\<rparr>, None))"
  by (rule handleJwtObject_no_crit) (simp add: plainHeader_def)

lemma gate_sample:
  "validateAlgorithm (Single ''HS256'') (stringOf (getProperty (properties plainHeader) ''alg''))"
  "validateAlgorithm (Single ''HS256'')
     (stringOf (getProperty (properties extensionHeader) ''alg''))"
  by (simp_all add: validateAlgorithm_def plainHeader_def extensionHeader_def getProperty_def)

lemma resign_sample:
  "sampleMakeJwt \<lparr>header = properties plainHeader, payload = issuerPayload, signature = sig\<rparr>
     ''secret'' = Inr validToken"
  "sampleMakeJwt \<lparr>header = properties extensionHeader, payload = pl, signature = sig\<rparr>
     ''secret'' = Inl (ErrorObject ''Error'' ''no signature on record'')"
  by (simp_all add: sampleMakeJwt_def plainHeader_def extensionHeader_def)

lemma validateJwt_validToken:
  "validateJwt sampleRuntime (sampleRequest validToken handlers)
   = Fulfilled (Valid \<lparr>header = properties plainHeader, payload = issuerPayload,
                        signature = goodSignatureHex\<rparr> validToken None)"
  using validateJwt_valid [where rt = sampleRuntime
      and v = "sampleRequest validToken handlers" and resigned = validToken, OF _ validate_sample(1)]
  by (simp add: sampleRequest_def parse_validToken handle_plain gate_sample resign_sample
      sampleRuntime_simps)

lemma validateJwt_tamperedToken:
  "validateJwt sampleRuntime (sampleRequest tamperedToken handlers)
   = Fulfilled (Invalid tamperedToken
       \<lparr>message = Some ''signatures don't match'', name = ''JwtError'',
        date = 1600000000001\<rparr> False)"
  using validateJwt_mismatch [where rt = sampleRuntime
      and v = "sampleRequest tamperedToken handlers" and resigned = validToken,
      OF _ validate_sample(1)]
  by (simp add: sampleRequest_def parse_validToken parse_tamperedToken handle_plain gate_sample
      resign_sample sampleRuntime_simps newJwtError_def goodSignatureHex_def
      badSignatureHex_def)

subsection \<open>What the handlers and the collaborators can make the orchestrator do\<close>

lemma checkHeaderCrit_cases:
  "checkHeaderCrit hdr handlers
   \<in> {([], Inl (ErrorObject ''Error''
                 ''header parameter 'crit' must be an array of non-empty strings'')),
       ([], Inl (ErrorObject ''Error''
                 ''the 'crit' list contains a non-extension header parameter'')),
       ([], Inl (ErrorObject ''Error''
                 ''critical extension header parameters are not understood''))}
   \<or> (\<forall>n\<in>set (critNames hdr). isFunction (getHandler handlers n))
      \<and> (case callHandlers handlers hdr (critNames hdr) of
            (calls, Inl e) \<Rightarrow> checkHeaderCrit hdr handlers = (calls, Inl e)
          | (calls, Inr rs) \<Rightarrow> checkHeaderCrit hdr handlers = (calls, Inr (promiseAll rs)))"
proof (cases "arrayOfNonEmptyStrings (getProperty hdr ''crit'')")
  case True
  then show ?thesis
    by (auto simp: checkHeaderCrit_wellFormed list_ex_iff split: prod.splits sum.splits)
next
  case False
  then show ?thesis
    by (simp add: checkHeaderCrit_malformed)
qed

lemma callHandlers_understood:
  assumes "\<forall>n\<in>set names. isFunction (getHandler handlers n)"
    and "callHandlers handlers hdr names = (calls, Inl e)"
  shows "calls \<noteq> [] \<and> (\<exists>n\<in>set names. \<exists>f. getHandler handlers n = Function f
                          \<and> f (getProperty hdr n) = Throws e)"
proof -
  from callHandlers_Inl [OF assms(2)] assms(1) show ?thesis
    by (metis isFunction.simps(1))
qed

lemma checkHeaderCrit_no_call:
  assumes "checkHeaderCrit hdr handlers = ([], Inl e)"
  shows "e \<in> {ErrorObject ''Error''
                 ''header parameter 'crit' must be an array of non-empty strings'',
              ErrorObject ''Error''
                 ''the 'crit' list contains a non-extension header parameter'',
              ErrorObject ''Error''
                 ''critical extension header parameters are not understood''}"
proof -
  from checkHeaderCrit_cases [of hdr handlers] show ?thesis
  proof
    assume "checkHeaderCrit hdr handlers
   \<in> {([], Inl (ErrorObject ''Error''
                 ''header parameter 'crit' must be an array of non-empty strings'')),
       ([], Inl (ErrorObject ''Error''
                 ''the 'crit' list contains a non-extension header parameter'')),
       ([], Inl (ErrorObject ''Error''
                 ''critical extension header parameters are not understood''))}"
    with assms show ?thesis by auto
  next
    assume a: "(\<forall>n\<in>set (critNames hdr). isFunction (getHandler handlers n))
      \<and> (case callHandlers handlers hdr (critNames hdr) of
            (calls, Inl e) \<Rightarrow> checkHeaderCrit hdr handlers = (calls, Inl e)
          | (calls, Inr rs) \<Rightarrow> checkHeaderCrit hdr handlers = (calls, Inr (promiseAll rs)))"
    with assms have "callHandlers handlers hdr (critNames hdr) = ([], Inl e)"
      by (auto split: prod.splits sum.splits)
    with a have False
      using callHandlers_understood by blast
    then show ?thesis ..
  qed
qed

lemma checkHeaderCrit_polite:
  assumes "politeHandlers handlers"
  shows "snd (checkHeaderCrit hdr handlers) \<noteq> Inr Pending
       \<and> (\<forall>e. snd (checkHeaderCrit hdr handlers) \<in> {Inl e, Inr (Rejected e)} \<longrightarrow> readable e)"
proof -
  have called: "polite (f (getProperty hdr n))" if "getHandler handlers n = Function f" for n f
    using assms that by (auto simp: politeHandlers_def)
  from checkHeaderCrit_cases [of hdr handlers] show ?thesis
  proof
    assume "checkHeaderCrit hdr handlers
   \<in> {([], Inl (ErrorObject ''Error''
                 ''header parameter 'crit' must be an array of non-empty strings'')),
       ([], Inl (ErrorObject ''Error''
                 ''the 'crit' list contains a non-extension header parameter'')),
       ([], Inl (ErrorObject ''Error''
                 ''critical extension header parameters are not understood''))}"
    then show ?thesis by auto
  next
    assume a: "(\<forall>n\<in>set (critNames hdr). isFunction (getHandler handlers n))
      \<and> (case callHandlers handlers hdr (critNames hdr) of
            (calls, Inl e) \<Rightarrow> checkHeaderCrit hdr handlers = (calls, Inl e)
          | (calls, Inr rs) \<Rightarrow> checkHeaderCrit hdr handlers = (calls, Inr (promiseAll rs)))"
    obtain calls res where c: "callHandlers handlers hdr (critNames hdr) = (calls, res)"
      by (cases "callHandlers handlers hdr (critNames hdr)")
    show ?thesis
    proof (cases res)
      case (Inl e)
      with a c obtain n f where "getHandler handlers n = Function f"
        "f (getProperty hdr n) = Throws e"
        using callHandlers_understood [of "critNames hdr" handlers hdr calls e] by blast
      with called [of n f] have "readable e" by auto
      with a c Inl show ?thesis by simp
    next
      case (Inr rs)
      with c have l: "list_all2 (\<lambda>n r. \<exists>f. getHandler handlers n = Function f
                          \<and> f (getProperty hdr n) = Returns r) (critNames hdr) rs"
        by (simp add: callHandlers_Inr)
      have ok: "polite (Returns r)" if "r \<in> set rs" for r
      proof -
        from that obtain i where "i < length rs" "rs ! i = r"
          by (auto simp: in_set_conv_nth)
        with l obtain f where "getHandler handlers (critNames hdr ! i) = Function f"
          "f (getProperty hdr (critNames hdr ! i)) = Returns r"
          by (auto simp: list_all2_conv_all_nth)
        with called show ?thesis by metis
      qed
      have "promiseAll rs \<noteq> Pending"
        using ok promiseAll_Pending [of rs] by fastforce
      moreover have "readable e" if "promiseAll rs = Rejected e" for e
        using ok that promiseAll_Rejected_mem [of rs e] by fastforce
      ultimately show ?thesis
        using a c Inr by auto
    qed
  qed
qed

lemma handleJwtObject_polite:
  assumes "politeHandlers handlers"
  shows "snd (handleJwtObject obj handlers) \<noteq> Pending
       \<and> (\<forall>e. snd (handleJwtObject obj handlers) = Rejected e \<longrightarrow> readable e)"
  using checkHeaderCrit_polite [OF assms, of "header obj"]
  by (auto simp: handleJwtObject_def split: prod.splits sum.splits promise.splits)

lemma handleJwtObject_no_call:
  assumes "handleJwtObject obj handlers = ([], Rejected e)"
  shows "\<exists>msg. e = ErrorObject ''Error'' msg \<and> msg \<noteq> ''the jwt is expired''"
proof -
  from assms have crit: "hasProperty ''crit'' (header obj)"
    by (auto simp: handleJwtObject_def split: if_splits)
  obtain calls res where c: "checkHeaderCrit (header obj) handlers = (calls, res)"
    by (cases "checkHeaderCrit (header obj) handlers")
  show ?thesis
  proof (cases res)
    case (Inl e')
    with assms crit c have "checkHeaderCrit (header obj) handlers = ([], Inl e)"
      by (simp add: handleJwtObject_def)
    from checkHeaderCrit_no_call [OF this] show ?thesis by auto
  next
    case (Inr pr)
    with assms crit c have calls: "calls = []" and pr: "pr = Rejected e"
      by (auto simp: handleJwtObject_def split: promise.splits)
    from checkHeaderCrit_cases [of "header obj" handlers] c Inr
    obtain rs where cs: "callHandlers handlers (header obj) (critNames (header obj)) = (calls, Inr rs)"
      and p: "pr = promiseAll rs"
      by (auto split: prod.splits sum.splits)
    from cs calls have "critNames (header obj) = []"
      by (auto dest: callHandlers_Inr)
    with cs have "rs = []" by simp
    with p pr show ?thesis
      by (simp add: promiseAll_def)
  qed
qed

lemma tryBlock_Fulfilled: "tryBlock rt v = Fulfilled r \<Longrightarrow> isValid r"
  by (auto simp: tryBlock_def split: sum.splits promise.splits if_splits)

lemma tryBlock_polite:
  assumes "politeHandlers (critHandlers v)" and "politeRuntime rt"
  shows "tryBlock rt v \<noteq> Pending \<and> (\<forall>e. tryBlock rt v = Rejected e \<longrightarrow> readable e)"
proof -
  have p: "readable e" if "parseAndDecode rt token = Inl e" for token e
    using assms(2) parseAndDecode_Inl [OF that]
    by (auto simp: politeRuntime_def)
  have s: "readable e" if "validateJwtObject rt m = Inl e" for m e
    using validateJwtObject_Inl [OF that] by auto
  have h: "snd (handleJwtObject obj (critHandlers v)) \<noteq> Pending
       \<and> (\<forall>e. snd (handleJwtObject obj (critHandlers v)) = Rejected e \<longrightarrow> readable e)" for obj
    using assms(1) by (rule handleJwtObject_polite)
  have k: "readable e" if "makeJwt rt obj secret = Inl e" for obj secret e
    using assms(2) that by (auto simp: politeRuntime_def)
  show ?thesis
    using p s h k
    by (auto simp: tryBlock_def split: sum.splits promise.splits if_splits)
qed

lemma catchBlock_settles:
  assumes "readable e"
  shows "\<exists>msg expired. catchBlock rt v e
           = Fulfilled (Invalid (jwt v) (newJwtError rt msg) expired)"
proof (cases e)
  case (ErrorObject n msg)
  then show ?thesis
    by (intro exI [of _ "Some msg"] exI [of _ "msg = ''the jwt is expired''"])
      (simp add: catchBlock_def)
next
  case NoMessage
  then show ?thesis
    by (intro exI [of _ None] exI [of _ False]) (simp add: catchBlock_def)
qed (use assms in simp_all)

lemma politeRuntime_sample: "politeRuntime sampleRuntime"
  by (auto simp: politeRuntime_def sampleRuntime_simps sampleDecoder_def sampleJsonParse_def
      sampleMakeJwt_def split: option.splits)

lemma politeHandlers_sample:
  "polite outcome \<Longrightarrow> politeHandlers (handlersDoing outcome)"
  by (simp add: politeHandlers_def handlersDoing_def getHandler_def)

lemma validateJwt_extensionToken:
  "validateJwt sampleRuntime (sampleRequest extensionToken (handlersDoing outcome))
   = (case outcome of
        Throws e \<Rightarrow>
          catchBlock sampleRuntime (sampleRequest extensionToken (handlersDoing outcome)) e
      | Returns (Value x) \<Rightarrow>
          catchBlock sampleRuntime (sampleRequest extensionToken (handlersDoing outcome))
            (ErrorObject ''Error'' ''no signature on record'')
      | Returns (RejectsAt t e) \<Rightarrow>
          catchBlock sampleRuntime (sampleRequest extensionToken (handlersDoing outcome)) e
      | Returns NeverSettles \<Rightarrow> Pending)"
  by (simp add: validateJwt_def tryBlock_def sampleRequest_def parse_extensionToken
      validate_sample handle_extension gate_sample resign_sample sampleRuntime_simps
      split: called.splits returned.splits)

lemma typeof_number: "(typeof x = TNumber) = (\<exists>n. x = JsJson (JNum n))"
proof (cases x)
  case (JsJson y)
  then show ?thesis by (cases y) simp_all
qed simp_all

lemma typeof_string: "(typeof x = TString) = (\<exists>s. x = JsJson (JStr s))"
proof (cases x)
  case (JsJson y)
  then show ?thesis by (cases y) simp_all
qed simp_all

lemma validateJwtObject_expired_iff:
  "(validateJwtObject rt m = Inl (ErrorObject ''RangeError'' ''the jwt is expired''))
   = (typeofJson (maybeSignature m) = TString
      \<and> (\<exists>hdr a. maybeHeader m = JObj hdr \<and> map_of hdr ''alg'' = Some (JStr a))
      \<and> pastLeeway rt (maybePayload m))"
proof
  assume a: "validateJwtObject rt m = Inl (ErrorObject ''RangeError'' ''the jwt is expired'')"
  then have sig: "typeofJson (maybeSignature m) = TString"
    and hdr: "isObject (maybeHeader m)" "hasProperty ''alg'' (properties (maybeHeader m))"
      "typeof (getProperty (properties (maybeHeader m)) ''alg'') = TString"
    and pl: "isObject (maybePayload m)"
      "typeof (getProperty (properties (maybePayload m)) ''exp'') = TNumber"
      "isExpired rt (numberOf (getProperty (properties (maybePayload m)) ''exp'')) (Some 1)"
    by (auto simp: validateJwtObject_def Let_def split: if_splits)
  from hdr obtain kvs where k: "maybeHeader m = JObj kvs"
    by (auto simp: isObject_iff)
  with hdr have "''alg'' \<in> fst ` set kvs"
    by (simp add: hasProperty_alg)
  then have "\<exists>x. map_of kvs ''alg'' = Some x"
    by (rule mem_map_of)
  then obtain x where x: "map_of kvs ''alg'' = Some x" ..
  with hdr k have "typeofJson x = TString"
    by (simp add: getProperty_own)
  then obtain a where "x = JStr a"
    by (cases x) simp_all
  with x k have h: "\<exists>hdr a. maybeHeader m = JObj hdr \<and> map_of hdr ''alg'' = Some (JStr a)"
    by simp
  from pl have "pastLeeway rt (maybePayload m)"
    by (auto simp: pastLeeway_def typeof_number isExpired_def)
  with sig h show "typeofJson (maybeSignature m) = TString
      \<and> (\<exists>hdr a. maybeHeader m = JObj hdr \<and> map_of hdr ''alg'' = Some (JStr a))
      \<and> pastLeeway rt (maybePayload m)"
    by simp
next
  assume a: "typeofJson (maybeSignature m) = TString
      \<and> (\<exists>hdr a. maybeHeader m = JObj hdr \<and> map_of hdr ''alg'' = Some (JStr a))
      \<and> pastLeeway rt (maybePayload m)"
  then obtain n where n: "getProperty (properties (maybePayload m)) ''exp'' = JsJson (JNum n)"
    and o: "isObject (maybePayload m)" and e: "n + 1 < of_int (dateNow rt) / 1000"
    by (auto simp: pastLeeway_def split: jsvalue.splits json.splits)
  from o obtain pl where pl: "maybePayload m = JObj pl"
    by (auto simp: isObject_iff)
  with n have "''exp'' \<in> fst ` set pl"
    by (auto simp: getProperty_def objectPrototype_def split: option.splits dest: map_of_mem)
  with a n o e pl show "validateJwtObject rt m
      = Inl (ErrorObject ''RangeError'' ''the jwt is expired'')"
    by (auto simp: validateJwtObject_def Let_def isObject_iff hasProperty_alg hasProperty_exp
        getProperty_own map_of_mem isExpired_def)
qed

lemma validateJwt_Invalid:
  assumes "validateJwt rt v = Fulfilled (Invalid j er expired)"
  shows "expired = (message er = Some ''the jwt is expired'')"
proof -
  from assms obtain e where "tryBlock rt v = Rejected e"
    and c: "catchBlock rt v e = Fulfilled (Invalid j er expired)"
    by (auto simp: validateJwt_def split: promise.splits dest: tryBlock_Fulfilled)
  show ?thesis
  proof (cases e)
    case (ErrorObject n msg)
    with c show ?thesis
      by (auto simp: catchBlock_ErrorObject newJwtError_def)
  next
    case NoMessage
    with c show ?thesis
      by (auto simp: catchBlock_def newJwtError_def)
  qed (use c in \<open>simp_all add: catchBlock_def\<close>)
qed

lemma validateJwt_expiredToken:
  "validateJwt sampleRuntime (sampleRequest expiredToken handlers)
   = Fulfilled (Invalid expiredToken
       \<lparr>message = Some ''the jwt is expired'', name = ''JwtError'',
        date = 1600000000001\<rparr> True)"
  using validateJwt_structure [where rt = sampleRuntime
      and v = "sampleRequest expiredToken handlers", OF _ validate_sample(5)]
  by (simp add: sampleRequest_def parse_expiredToken catchBlock_ErrorObject newJwtError_def
      sampleRuntime_simps)

section \<open>The algorithm gate\<close>

text \<open>
  C6. For every declared algorithm and every allow-list, a single algorithm or an array
  of algorithms (empty or not), \<open>validateAlgorithm\<close> is true exactly when the declared
  algorithm is equal, as a string, to the single value or occurs in the array. Nothing is
  normalised: an algorithm that differs only in the case of its letters does not match.
\<close>

theorem validateAlgorithm_iff:
  "validateAlgorithm (Single a) jwtAlg = (jwtAlg = a)
   \<and> validateAlgorithm (Several xs) jwtAlg = (jwtAlg \<in> set xs)
   \<and> validateAlgorithm (Single ''HS256'') ''hs256'' = False
   \<and> validateAlgorithm (Several [''HS256'', ''HS512'']) ''hs512'' = False"
  by (auto simp: validateAlgorithm_def list_ex_iff)

section \<open>The structural validator\<close>

text \<open>
  C10. The structural validator never checks that the payload is an object. For every
  decoded token whose signature is a string and whose header is an object with a string
  \<^verbatim>\<open>alg\<close>: if the payload is \<^verbatim>\<open>null\<close>, a boolean, a number, a string or an array, then
  \<open>validateJwtObject\<close> succeeds and returns the three fields unchanged; and it fails
  exactly when the payload is an object that has the key \<^verbatim>\<open>exp\<close> and that \<^verbatim>\<open>exp\<close> is
  no number or is expired, so the expiration check applies to such payloads only.
\<close>

theorem validateJwtObject_payload_unchecked:
  assumes "maybeSignature m = JStr sig"
    and "maybeHeader m = JObj hdr"
    and "map_of hdr ''alg'' = Some (JStr a)"
  shows "(maybePayload m \<in> {JNull} \<union> range JBool \<union> range JNum \<union> range JStr \<union> range JArr
            \<longrightarrow> validateJwtObject rt m
                = Inr \<lparr>header = hdr, payload = maybePayload m, signature = sig\<rparr>)
       \<and> ((\<exists>e. validateJwtObject rt m = Inl e)
            = (\<exists>pl. maybePayload m = JObj pl \<and> ''exp'' \<in> fst ` set pl
                 \<and> (typeof (getProperty pl ''exp'') \<noteq> TNumber
                      \<or> isExpired rt (numberOf (getProperty pl ''exp'')) (Some 1))))"
  using assms
  by (cases "maybePayload m")
    (auto simp: validateJwtObject_def isObject_iff hasProperty_alg hasProperty_exp
      getProperty_own map_of_mem Let_def)

text \<open>Witness for C10: an array and a number as payload of the sample header.\<close>

theorem validateJwtObject_payload_unchecked_witness:
  "validateJwtObject sampleRuntime
     \<lparr>maybeHeader = plainHeader, maybePayload = JArr [JStr ''exp''],
      maybeSignature = JStr goodSignatureHex\<rparr>
   = Inr \<lparr>header = properties plainHeader, payload = JArr [JStr ''exp''],
           signature = goodSignatureHex\<rparr>
   \<and> validateJwtObject sampleRuntime
     \<lparr>maybeHeader = plainHeader, maybePayload = JNum 0,
      maybeSignature = JStr goodSignatureHex\<rparr>
   = Inr \<lparr>header = properties plainHeader, payload = JNum 0, signature = goodSignatureHex\<rparr>"
  using validateJwtObject_payload_unchecked [where rt = sampleRuntime
      and m = "\<lparr>maybeHeader = plainHeader, maybePayload = JArr [JStr ''exp''],
                 maybeSignature = JStr goodSignatureHex\<rparr>"
      and sig = goodSignatureHex and hdr = "properties plainHeader" and a = "''HS256''"]
    validateJwtObject_payload_unchecked [where rt = sampleRuntime
      and m = "\<lparr>maybeHeader = plainHeader, maybePayload = JNum 0,
                 maybeSignature = JStr goodSignatureHex\<rparr>"
      and sig = goodSignatureHex and hdr = "properties plainHeader" and a = "''HS256''"]
  by (simp add: plainHeader_def)

text \<open>
  C3, as the code has it. For every decoded token whose signature is a string, whose header
  is an object with a string \<^verbatim>\<open>alg\<close> and whose payload is an object with a numeric \<^verbatim>\<open>exp\<close>,
  the structural validator fails, with the expiration error, exactly when
  \<open>exp + 1 < Date.now() / 1000\<close>, and succeeds otherwise; \<open>validateJwt\<close> then returns the
  invalid result with \<open>isExpired = true\<close>, as it does for \<open>exp = now - 2\<close>, while
  \<open>exp = now - 1\<close> and \<open>exp = now + 1\<close> pass the check. The helper \<open>isExpired\<close> with its
  default leeway 0 is true exactly when \<open>exp < Date.now() / 1000\<close>.
\<close>

theorem expiration_leeway:
  assumes "maybeSignature m = JStr sig"
    and "maybeHeader m = JObj hdr"
    and "map_of hdr ''alg'' = Some (JStr a)"
    and "maybePayload m = JObj pl"
    and "map_of pl ''exp'' = Some (JNum e)"
  shows "validateJwtObject rt m
         = (if e + 1 < of_int (dateNow rt) / 1000
            then Inl (ErrorObject ''RangeError'' ''the jwt is expired'')
            else Inr \<lparr>header = hdr, payload = JObj pl, signature = sig\<rparr>)
       \<and> (parseAndDecode rt (jwt v) = Inr m \<and> e + 1 < of_int (dateNow rt) / 1000
            \<longrightarrow> validateJwt rt v
                = Fulfilled (Invalid (jwt v) (newJwtError rt (Some ''the jwt is expired'')) True))
       \<and> (parseAndDecode rt (jwt v) = Inr m \<and> e = of_int (dateNow rt) / 1000 - 2
            \<longrightarrow> validateJwt rt v
                = Fulfilled (Invalid (jwt v) (newJwtError rt (Some ''the jwt is expired'')) True))
       \<and> (e = of_int (dateNow rt) / 1000 - 1 \<or> e = of_int (dateNow rt) / 1000 + 1
            \<longrightarrow> validateJwtObject rt m = Inr \<lparr>header = hdr, payload = JObj pl, signature = sig\<rparr>)
       \<and> isExpired rt x None = (x < of_int (dateNow rt) / 1000)"
proof -
  have obj: "validateJwtObject rt m
         = (if e + 1 < of_int (dateNow rt) / 1000
            then Inl (ErrorObject ''RangeError'' ''the jwt is expired'')
            else Inr \<lparr>header = hdr, payload = JObj pl, signature = sig\<rparr>)"
    using assms
    by (simp add: validateJwtObject_def isObject_iff hasProperty_alg hasProperty_exp
        getProperty_own map_of_mem Let_def isExpired_def)
  have inv: "validateJwt rt v
      = Fulfilled (Invalid (jwt v) (newJwtError rt (Some ''the jwt is expired'')) True)"
    if "parseAndDecode rt (jwt v) = Inr m" and "e + 1 < of_int (dateNow rt) / 1000"
    using that obj by (simp add: validateJwt_structure catchBlock_ErrorObject)
  show ?thesis
    using obj inv by (auto simp: isExpired_def)
qed

text \<open>Witness for C3: the sample token whose \<^verbatim>\<open>exp\<close> is 0.\<close>

theorem expiration_leeway_witness:
  "validateJwtObject sampleRuntime
     \<lparr>maybeHeader = plainHeader, maybePayload = expiredPayload,
      maybeSignature = JStr goodSignatureHex\<rparr>
   = Inl (ErrorObject ''RangeError'' ''the jwt is expired'')
   \<and> validateJwt sampleRuntime (sampleRequest expiredToken None)
   = Fulfilled (Invalid expiredToken
       \<lparr>message = Some ''the jwt is expired'', name = ''JwtError'', date = 1600000000001\<rparr> True)"
  using expiration_leeway [where rt = sampleRuntime
      and m = "\<lparr>maybeHeader = plainHeader, maybePayload = expiredPayload,
                 maybeSignature = JStr goodSignatureHex\<rparr>"
      and sig = goodSignatureHex and hdr = "properties plainHeader" and a = "''HS256''"
      and pl = "properties expiredPayload" and e = 0
      and v = "sampleRequest expiredToken None"]
  by (simp add: plainHeader_def expiredPayload_def sampleRequest_def parse_expiredToken
      sampleRuntime_simps newJwtError_def)

text \<open>
  Counterexample to C3 as stated: the header of this token has no \<^verbatim>\<open>alg\<close> and its payload
  has \<^verbatim>\<open>exp: 0\<close>, long past the leeway; the structural validator checks the header first
  and fails with the error about \<^verbatim>\<open>alg\<close>, and the result has \<open>isExpired = false\<close>.
\<close>

theorem header_before_expiration_counterexample:
  "parseAndDecode sampleRuntime expiredTypeToken
   = Inr \<lparr>maybeHeader = JObj [(''typ'', JStr ''JWT'')],
           maybePayload = JObj [(''exp'', JNum 0)],
           maybeSignature = JStr goodSignatureHex\<rparr>
   \<and> (0 :: rat) + 1 < of_int (dateNow sampleRuntime) / 1000
   \<and> validateJwtObject sampleRuntime
       \<lparr>maybeHeader = JObj [(''typ'', JStr ''JWT'')],
        maybePayload = JObj [(''exp'', JNum 0)],
        maybeSignature = JStr goodSignatureHex\<rparr>
     = Inl (ErrorObject ''ReferenceError'' ''header parameter 'alg' is not a string'')
   \<and> validateJwt sampleRuntime (sampleRequest expiredTypeToken None)
     = Fulfilled (Invalid expiredTypeToken
         \<lparr>message = Some ''header parameter 'alg' is not a string'', name = ''JwtError'',
          date = 1600000000001\<rparr> False)"
  using parse_expiredTypeToken
    validateJwt_structure [where rt = sampleRuntime
      and v = "sampleRequest expiredTypeToken None", OF _ validate_expiredType]
  by (simp add: typeHeader_def expiredPayload_def sampleRequest_def
      validate_expiredType [unfolded typeHeader_def expiredPayload_def]
      catchBlock_ErrorObject newJwtError_def sampleRuntime_simps)

section \<open>The dispatcher of critical extensions\<close>

text \<open>
  What holds of every dispatch that succeeds: the handler of every entry of \<^verbatim>\<open>crit\<close> has
  been called, once and in the order of the array, with the value read by
  \<^verbatim>\<open>header[str]\<close>, which is the stored value when the entry is a key of the header; the
  outputs are as many as the entries, the output at index \<open>i\<close> being what the handler of
  entry \<open>i\<close> returned. If the handler of some entry throws or its promise rejects, the
  dispatch as a whole throws or rejects, and returns no outputs.
\<close>

lemma checkHeaderCrit_dispatch:
  "(checkHeaderCrit hdr handlers = (calls, Inr (Fulfilled outputs)) \<longrightarrow>
      getProperty hdr ''crit'' = JsJson (JArr (map JStr (critNames hdr)))
      \<and> calls = map (\<lambda>n. (n, getProperty hdr n)) (critNames hdr)
      \<and> length outputs = length (critNames hdr)
      \<and> (\<forall>i<length (critNames hdr). \<exists>f.
            getHandler handlers (critNames hdr ! i) = Function f
            \<and> f (getProperty hdr (critNames hdr ! i)) = Returns (Value (outputs ! i))))
   \<and> (map_of hdr n = Some x \<longrightarrow> getProperty hdr n = JsJson x)
   \<and> (n \<in> set (critNames hdr) \<and> getHandler handlers n = Function f
        \<and> failing (f (getProperty hdr n))
      \<longrightarrow> (\<exists>made e. checkHeaderCrit hdr handlers = (made, Inl e)
                    \<or> checkHeaderCrit hdr handlers = (made, Inr (Rejected e))))"
proof (intro conjI impI)
  assume ok: "checkHeaderCrit hdr handlers = (calls, Inr (Fulfilled outputs))"
  then have wf: "arrayOfNonEmptyStrings (getProperty hdr ''crit'')"
    by (rule contrapos_pp) (simp add: checkHeaderCrit_malformed)
  then show "getProperty hdr ''crit'' = JsJson (JArr (map JStr (critNames hdr)))"
    unfolding critNames_def by (rule arrayOfNonEmptyStrings_names)
  from ok wf obtain rs where c: "callHandlers handlers hdr (critNames hdr) = (calls, Inr rs)"
    and p: "promiseAll rs = Fulfilled outputs"
    by (auto simp: checkHeaderCrit_wellFormed split: if_splits prod.splits sum.splits)
  from p have rs: "rs = map Value outputs"
    by (simp add: promiseAll_Fulfilled)
  from c show "calls = map (\<lambda>n. (n, getProperty hdr n)) (critNames hdr)"
    by (simp add: callHandlers_Inr)
  from c have l: "list_all2 (\<lambda>n r. \<exists>f. getHandler handlers n = Function f
                          \<and> f (getProperty hdr n) = Returns r) (critNames hdr) rs"
    by (simp add: callHandlers_Inr)
  then show "length outputs = length (critNames hdr)"
    using rs by (auto dest: list_all2_lengthD)
  show "\<forall>i<length (critNames hdr). \<exists>f.
            getHandler handlers (critNames hdr ! i) = Function f
            \<and> f (getProperty hdr (critNames hdr ! i)) = Returns (Value (outputs ! i))"
    using l rs by (auto simp: list_all2_conv_all_nth)
next
  assume "map_of hdr n = Some x"
  then show "getProperty hdr n = JsJson x"
    by (rule getProperty_own)
next
  assume a: "n \<in> set (critNames hdr) \<and> getHandler handlers n = Function f
        \<and> failing (f (getProperty hdr n))"
  show "\<exists>made e. checkHeaderCrit hdr handlers = (made, Inl e)
                    \<or> checkHeaderCrit hdr handlers = (made, Inr (Rejected e))"
  proof (cases "checkHeaderCrit hdr handlers")
    case (Pair made res)
    show ?thesis
    proof (cases res)
      case (Inl e)
      with Pair show ?thesis by blast
    next
      case (Inr pr)
      have wf: "arrayOfNonEmptyStrings (getProperty hdr ''crit'')"
        using Pair Inr by - (rule ccontr, simp add: checkHeaderCrit_malformed)
      with Pair Inr obtain rs where
        c: "callHandlers handlers hdr (critNames hdr) = (made, Inr rs)"
        and p: "pr = promiseAll rs"
        by (auto simp: checkHeaderCrit_wellFormed split: if_splits prod.splits sum.splits)
      from c have l: "list_all2 (\<lambda>n r. \<exists>f. getHandler handlers n = Function f
                          \<and> f (getProperty hdr n) = Returns r) (critNames hdr) rs"
        by (simp add: callHandlers_Inr)
      from a obtain i where i: "i < length (critNames hdr)" "critNames hdr ! i = n"
        by (auto simp: in_set_conv_nth)
      with l a have r: "f (getProperty hdr n) = Returns (rs ! i)" and il: "i < length rs"
        by (auto simp: list_all2_conv_all_nth)
      with a obtain t e where "rs ! i = RejectsAt t e"
        by (cases "rs ! i") auto
      with il have "RejectsAt t e \<in> set rs"
        by (metis nth_mem)
      then obtain e' where "promiseAll rs = Rejected e'"
        using promiseAll_Rejected [of rs] by blast
      with Pair Inr p show ?thesis by simp
    qed
  qed
qed


text \<open>
  C9, at the input where the code departs from it. The header lists \<^verbatim>\<open>ext\<close> and
  \<^verbatim>\<open>toString\<close> as critical and stores a value under \<^verbatim>\<open>ext\<close> only. The dispatch succeeds,
  with the two outputs in the order of the array; but the handler found under
  \<^verbatim>\<open>toString\<close> has been called with the function that the header inherits from
  \<^verbatim>\<open>Object.prototype\<close>, not with a value stored in the header under that name.
\<close>

theorem inherited_value_passed:
  "map_of twoEntriesHeader ''ext'' = Some (JBool True)
   \<and> map_of twoEntriesHeader ''toString'' = None
   \<and> critNames twoEntriesHeader = [''ext'', ''toString'']
   \<and> checkHeaderCrit twoEntriesHeader extTable
     = ([(''ext'', JsJson (JBool True)), (''toString'', JsInherited ''toString'')],
        Inr (Fulfilled [''done'', ''[object Object]'']))
   \<and> handleJwtObject \<lparr>header = twoEntriesHeader, payload = issuerPayload, signature = sig\<rparr>
        extTable
     = ([(''ext'', JsJson (JBool True)), (''toString'', JsInherited ''toString'')],
        Fulfilled (\<lparr>header = twoEntriesHeader, payload = issuerPayload, signature = sig\<rparr>,
                   Some [''done'', ''[object Object]'']))"
  by (simp add: handleJwtObject_def checkHeaderCrit_def twoEntriesHeader_def extTable_def
      getProperty_def reservedWords_def objectPrototype_def getHandler_def critNames_def
      hasProperty_def promiseAll_def Let_def)

text \<open>
  Witness for C9: the calls that this dispatch has made, inside \<open>handleJwtObject\<close>, for the
  object decoded from a token with the valid sample signature.
\<close>

theorem inherited_value_passed_witness:
  "fst (handleJwtObject
          \<lparr>header = twoEntriesHeader, payload = issuerPayload, signature = goodSignatureHex\<rparr>
          extTable)
   = [(''ext'', JsJson (JBool True)), (''toString'', JsInherited ''toString'')]
   \<and> snd (checkHeaderCrit twoEntriesHeader extTable)
     = Inr (Fulfilled [''done'', ''[object Object]''])"
  using inherited_value_passed [of goodSignatureHex] by simp

text \<open>
  C8, at the input where the code departs from it. The header lists \<^verbatim>\<open>toString\<close> as
  critical and has no key of that name, and the caller has registered no handler; yet
  \<^verbatim>\<open>header["toString"]\<close> and \<^verbatim>\<open>handlers["toString"]\<close> both find the function inherited
  from \<^verbatim>\<open>Object.prototype\<close>, so the dispatch does not fail with "not understood": it calls
  that function and succeeds.
\<close>

theorem inherited_name_dispatched:
  "map_of inheritedHeader ''toString'' = None
   \<and> critNames inheritedHeader = [''toString'']
   \<and> checkHeaderCrit inheritedHeader toStringTable
     = ([(''toString'', JsInherited ''toString'')], Inr (Fulfilled [''[object Object]'']))
   \<and> handleJwtObject \<lparr>header = inheritedHeader, payload = issuerPayload, signature = sig\<rparr>
        toStringTable
     = ([(''toString'', JsInherited ''toString'')],
        Fulfilled (\<lparr>header = inheritedHeader, payload = issuerPayload, signature = sig\<rparr>,
                   Some [''[object Object]'']))"
  by (simp add: handleJwtObject_def checkHeaderCrit_def inheritedHeader_def toStringTable_def
      getProperty_def reservedWords_def objectPrototype_def getHandler_def critNames_def
      hasProperty_def promiseAll_def Let_def)

text \<open>
  Witness for C8: the same dispatch inside \<open>handleJwtObject\<close>, for the object decoded from
  a token with the valid sample signature.
\<close>

theorem inherited_name_dispatched_witness:
  "handleJwtObject
     \<lparr>header = inheritedHeader, payload = issuerPayload, signature = goodSignatureHex\<rparr>
     toStringTable
   = ([(''toString'', JsInherited ''toString'')],
      Fulfilled (\<lparr>header = inheritedHeader, payload = issuerPayload,
                  signature = goodSignatureHex\<rparr>,
                 Some [''[object Object]'']))"
  using inherited_name_dispatched [of goodSignatureHex] by simp

text \<open>
  The rest of that claim holds. Without the key \<^verbatim>\<open>crit\<close> in the header the dispatcher is
  skipped, no handler is called and a valid result carries no outputs. With a well-formed
  \<^verbatim>\<open>crit\<close> that has no reserved entry, an entry that is neither a key of the header nor a
  name inherited from \<^verbatim>\<open>Object.prototype\<close>, or under which the handler table holds no
  function, makes the dispatch fail with the "not understood" error before any handler
  is called.
\<close>

lemma dispatcher_skipped:
  assumes "''crit'' \<notin> fst ` set (header obj)"
  shows "handleJwtObject obj handlers = ([], Fulfilled (obj, None))"
    and "validateJwt rt v = Fulfilled (Valid obj j outputs) \<Longrightarrow> outputs = None"
proof -
  show h: "handleJwtObject obj handlers = ([], Fulfilled (obj, None))" for handlers
    using assms by (rule handleJwtObject_no_crit)
  assume "validateJwt rt v = Fulfilled (Valid obj j outputs)"
  from validateJwt_Valid [OF this] h [of "critHandlers v"] show "outputs = None"
    by auto
qed

lemma not_understood:
  assumes "arrayOfNonEmptyStrings (getProperty hdr ''crit'')"
    and "\<forall>n\<in>set (critNames hdr). n \<notin> set reservedWords"
    and "n \<in> set (critNames hdr)"
    and "map_of hdr n = None \<and> n \<notin> set objectPrototype \<or> \<not> isFunction (getHandler handlers n)"
  shows "checkHeaderCrit hdr handlers
         = ([], Inl (ErrorObject ''Error''
                 ''critical extension header parameters are not understood''))"
proof -
  from assms(4) have "typeof (getProperty hdr n) = TUndefined
                      \<or> \<not> isFunction (getHandler handlers n)"
    by (auto simp: getProperty_def)
  with assms(3) have "list_ex (\<lambda>n. typeof (getProperty hdr n) = TUndefined
                          \<or> \<not> isFunction (getHandler handlers n)) (critNames hdr)"
    by (auto simp: list_ex_iff)
  with assms(1,2) show ?thesis
    by (simp add: checkHeaderCrit_wellFormed list_ex_iff)
qed

text \<open>
  C7, as the code has it. For every header whose \<^verbatim>\<open>crit\<close> is not an array of non-empty
  strings, and for every header whose \<^verbatim>\<open>crit\<close> array contains one of the 20 reserved
  names, \<open>checkHeaderCrit\<close> throws, whatever the handlers, one of its first two errors
  and calls no handler; and \<open>validateJwt\<close> on a token with such a header (and the key
  \<^verbatim>\<open>crit\<close> in it) returns the invalid result, whose \<open>isExpired\<close> is false unless the
  structural validator, which runs first, has rejected the token as expired.
\<close>

theorem crit_malformed_or_reserved:
  assumes "\<not> arrayOfNonEmptyStrings (getProperty hdr ''crit'')
           \<or> (\<exists>xs w. getProperty hdr ''crit'' = JsJson (JArr xs)
                  \<and> w \<in> {''alg'', ''jku'', ''jwk'', ''kid'', ''x5u'', ''x5c'', ''x5t'',
                          ''x5t#S256'', ''typ'', ''cty'', ''crit'', ''enc'', ''zip'', ''epk'',
                          ''apu'', ''apv'', ''iv'', ''tag'', ''p2s'', ''p2c''}
                  \<and> JStr w \<in> set xs)"
  shows "checkHeaderCrit hdr handlers
         \<in> {([], Inl (ErrorObject ''Error''
                 ''header parameter 'crit' must be an array of non-empty strings'')),
             ([], Inl (ErrorObject ''Error''
                 ''the 'crit' list contains a non-extension header parameter''))}
       \<and> (parseAndDecode rt (jwt v) = Inr m \<and> maybeHeader m = JObj hdr
            \<and> ''crit'' \<in> fst ` set hdr
          \<longrightarrow> (\<exists>msg. validateJwt rt v
                = Fulfilled (Invalid (jwt v) (newJwtError rt (Some msg))
                    (validateJwtObject rt m
                     = Inl (ErrorObject ''RangeError'' ''the jwt is expired'')))))"
proof -
  have crit: "checkHeaderCrit hdr hs
         \<in> {([], Inl (ErrorObject ''Error''
                 ''header parameter 'crit' must be an array of non-empty strings'')),
             ([], Inl (ErrorObject ''Error''
                 ''the 'crit' list contains a non-extension header parameter''))}" for hs
    using assms checkHeaderCrit_reserved [of hdr _ _ hs] checkHeaderCrit_malformed [of hdr hs]
    unfolding reservedWords_set [symmetric] by auto
  have "\<exists>msg. validateJwt rt v
                = Fulfilled (Invalid (jwt v) (newJwtError rt (Some msg))
                    (validateJwtObject rt m
                     = Inl (ErrorObject ''RangeError'' ''the jwt is expired'')))"
    if p: "parseAndDecode rt (jwt v) = Inr m" and h: "maybeHeader m = JObj hdr"
      and c: "''crit'' \<in> fst ` set hdr"
  proof (cases "validateJwtObject rt m")
    case (Inl e)
    then obtain n msg where e: "e = ErrorObject n msg"
      by (auto dest: validateJwtObject_Inl)
    have "(msg = ''the jwt is expired'')
          = (e = ErrorObject ''RangeError'' ''the jwt is expired'')"
      using validateJwtObject_Inl [OF Inl] e by auto
    with p Inl e show ?thesis
      by (intro exI [of _ msg]) (simp add: validateJwt_structure catchBlock_ErrorObject)
  next
    case (Inr obj)
    with h have hdr: "header obj = hdr"
      by (auto dest: validateJwtObject_Inr)
    from crit [of "critHandlers v"] obtain msg where
      msg: "checkHeaderCrit hdr (critHandlers v) = ([], Inl (ErrorObject ''Error'' msg))"
      and ne: "msg \<noteq> ''the jwt is expired''"
      by auto
    with hdr c have "handleJwtObject obj (critHandlers v)
                     = ([], Rejected (ErrorObject ''Error'' msg))"
      by (simp add: handleJwtObject_throw hasProperty_crit)
    then have "validateJwt rt v = catchBlock rt v (ErrorObject ''Error'' msg)"
      using p Inr by (simp add: validateJwt_dispatch)
    with ne Inr show ?thesis
      by (intro exI [of _ msg]) (simp add: catchBlock_ErrorObject)
  qed
  with crit show ?thesis by blast
qed

text \<open>Witness for C7: the sample token whose header has \<^verbatim>\<open>crit: ["alg"]\<close>.\<close>

theorem crit_malformed_or_reserved_witness:
  "checkHeaderCrit (properties reservedHeader) (handlersDoing (Returns (Value ''done'')))
   = ([], Inl (ErrorObject ''Error''
                 ''the 'crit' list contains a non-extension header parameter''))
   \<and> validateJwt sampleRuntime
       (sampleRequest reservedToken (handlersDoing (Returns (Value ''done''))))
     = Fulfilled (Invalid reservedToken
         \<lparr>message = Some ''the 'crit' list contains a non-extension header parameter'',
          name = ''JwtError'', date = 1600000000001\<rparr> False)"
proof -
  have reserved: "\<not> arrayOfNonEmptyStrings (getProperty (properties reservedHeader) ''crit'')
           \<or> (\<exists>xs w. getProperty (properties reservedHeader) ''crit'' = JsJson (JArr xs)
                  \<and> w \<in> {''alg'', ''jku'', ''jwk'', ''kid'', ''x5u'', ''x5c'', ''x5t'',
                          ''x5t#S256'', ''typ'', ''cty'', ''crit'', ''enc'', ''zip'', ''epk'',
                          ''apu'', ''apv'', ''iv'', ''tag'', ''p2s'', ''p2c''}
                  \<and> JStr w \<in> set xs)"
    by (rule disjI2, rule exI [of _ "[JStr ''alg'']"], rule exI [of _ "''alg''"])
      (simp add: reservedHeader_def getProperty_def)
  from crit_malformed_or_reserved [OF reserved, where rt = sampleRuntime
      and handlers = "handlersDoing (Returns (Value ''done''))"
      and v = "sampleRequest reservedToken (handlersDoing (Returns (Value ''done'')))"
      and m = "\<lparr>maybeHeader = reservedHeader, maybePayload = issuerPayload,
                 maybeSignature = JStr goodSignatureHex\<rparr>"]
  show ?thesis
    by (simp add: dispatch_reserved validateJwt_reservedToken)
qed

text \<open>
  Counterexample to C7 as stated: the header of this token has \<^verbatim>\<open>crit: ["alg"]\<close> and its
  payload has \<^verbatim>\<open>exp: 0\<close>; the result is invalid with \<open>isExpired = true\<close>.
\<close>

theorem expired_reserved_counterexample:
  "parseAndDecode sampleRuntime expiredReservedToken
   = Inr \<lparr>maybeHeader = JObj [(''alg'', JStr ''HS256''), (''crit'', JArr [JStr ''alg''])],
           maybePayload = JObj [(''exp'', JNum 0)],
           maybeSignature = JStr goodSignatureHex\<rparr>
   \<and> validateJwt sampleRuntime (sampleRequest expiredReservedToken None)
     = Fulfilled (Invalid expiredReservedToken
         \<lparr>message = Some ''the jwt is expired'', name = ''JwtError'',
          date = 1600000000001\<rparr> True)"
  using parse_expiredReservedToken
  by (simp add: reservedHeader_def expiredPayload_def validateJwt_structure sampleRequest_def
      validate_sample [unfolded reservedHeader_def expiredPayload_def]
      catchBlock_ErrorObject newJwtError_def sampleRuntime_simps)

section \<open>The orchestrator\<close>

text \<open>
  C4. Let the collaborators of \<open>parseAndDecode\<close> fail in the ordinary way. For every input
  string whose split on \<^verbatim>\<open>.\<close> does not yield exactly 3 segments, or one of whose segments
  the base64url decoder or (for a segment other than the third) the JSON parser does not
  accept, \<open>parseAndDecode\<close> fails, and \<open>validateJwt\<close> returns the invalid result with
  \<open>isExpired = false\<close> and with the original input string in its field \<^verbatim>\<open>jwt\<close>.
\<close>

theorem malformed_token_invalid:
  assumes "ordinaryFailures rt"
    and "length (jsSplit (CHR ''.'') (jwt v)) \<noteq> 3 \<or> \<not> decodable rt (jwt v)"
  shows "(\<exists>e. parseAndDecode rt (jwt v) = Inl e)
       \<and> (\<exists>msg. validateJwt rt v = Fulfilled (Invalid (jwt v) (newJwtError rt msg) False))"
proof -
  from assms(2) obtain e where e: "parseAndDecode rt (jwt v) = Inl e"
    using parseAndDecode_fails by blast
  from parseAndDecode_Inl [OF e] assms(1) have "ordinary e"
    by (auto simp: ordinaryFailures_def)
  then obtain msg where "catchBlock rt v e = Fulfilled (Invalid (jwt v) (newJwtError rt msg) False)"
    using catchBlock_ordinary by blast
  with e show ?thesis
    by (auto simp: validateJwt_decoding)
qed

text \<open>Witness for C4: the first two segments of the valid sample token.\<close>

theorem malformed_token_invalid_witness:
  "parseAndDecode sampleRuntime twoSegments
   = Inl (ErrorObject ''TypeError'' ''invalid serialization'')
   \<and> validateJwt sampleRuntime (sampleRequest twoSegments None)
     = Fulfilled (Invalid twoSegments
         \<lparr>message = Some ''invalid serialization'', name = ''JwtError'',
          date = 1600000000001\<rparr> False)"
proof -
  have two: "length (jsSplit (CHR ''.'') (jwt (sampleRequest twoSegments None))) \<noteq> 3
             \<or> \<not> decodable sampleRuntime (jwt (sampleRequest twoSegments None))"
    by (simp add: sampleRequest_def twoSegments_def jsSplit_append jsSplit_none no_dot)
  from malformed_token_invalid [OF sampleRuntime_ordinary two]
  show ?thesis
    by (simp add: parse_twoSegments validateJwt_decoding sampleRequest_def
        catchBlock_ErrorObject newJwtError_def sampleRuntime_simps)
qed

text \<open>
  C5. \<open>validateJwt\<close> returns the valid result only if the signature of the presented
  token, as the hex string that \<open>parseAndDecode\<close> makes of it, is equal to the signature
  obtained by signing the decoded header and payload again with the key and decoding the
  fresh token. When the comparison finds the two unequal, on a token that is valid
  otherwise (it has passed decoding, the structural validator, the dispatch and the
  algorithm gate, and signing again succeeds), the result is invalid with
  \<open>isExpired = false\<close>.
\<close>

theorem signature_comparison:
  "(validateJwt rt v = Fulfilled (Valid obj j outputs) \<longrightarrow>
      (\<exists>m resigned fresh.
          parseAndDecode rt (jwt v) = Inr m \<and> maybeSignature m = JStr (signature obj)
          \<and> header obj = properties (maybeHeader m) \<and> payload obj = maybePayload m
          \<and> makeJwt rt obj (key v) = Inr resigned
          \<and> parseAndDecode rt resigned = Inr fresh
          \<and> maybeSignature fresh = maybeSignature m))
   \<and> (parseAndDecode rt (jwt v) = Inr m \<and> validateJwtObject rt m = Inr obj'
        \<and> snd (handleJwtObject obj' (critHandlers v)) = Fulfilled (obj', outputs')
        \<and> validateAlgorithm (algorithm v) (stringOf (getProperty (header obj') ''alg''))
        \<and> makeJwt rt obj' (key v) = Inr resigned
        \<and> parseAndDecode rt resigned = Inr fresh
        \<and> maybeSignature fresh \<noteq> maybeSignature m
      \<longrightarrow> validateJwt rt v
          = Fulfilled (Invalid (jwt v) (newJwtError rt (Some ''signatures don't match'')) False))"
proof (intro conjI impI)
  assume "validateJwt rt v = Fulfilled (Valid obj j outputs)"
  from validateJwt_Valid [OF this] obtain m resigned fresh where
    *: "parseAndDecode rt (jwt v) = Inr m" "validateJwtObject rt m = Inr obj"
      "makeJwt rt obj (key v) = Inr resigned" "parseAndDecode rt resigned = Inr fresh"
      "maybeSignature fresh = JStr (signature obj)"
    by blast
  from validateJwtObject_Inr [OF *(2)] * show "\<exists>m resigned fresh.
          parseAndDecode rt (jwt v) = Inr m \<and> maybeSignature m = JStr (signature obj)
          \<and> header obj = properties (maybeHeader m) \<and> payload obj = maybePayload m
          \<and> makeJwt rt obj (key v) = Inr resigned
          \<and> parseAndDecode rt resigned = Inr fresh
          \<and> maybeSignature fresh = maybeSignature m"
    by (intro exI [of _ m] exI [of _ resigned] exI [of _ fresh]) simp
next
  assume "parseAndDecode rt (jwt v) = Inr m \<and> validateJwtObject rt m = Inr obj'
        \<and> snd (handleJwtObject obj' (critHandlers v)) = Fulfilled (obj', outputs')
        \<and> validateAlgorithm (algorithm v) (stringOf (getProperty (header obj') ''alg''))
        \<and> makeJwt rt obj' (key v) = Inr resigned
        \<and> parseAndDecode rt resigned = Inr fresh
        \<and> maybeSignature fresh \<noteq> maybeSignature m"
  then show "validateJwt rt v
          = Fulfilled (Invalid (jwt v) (newJwtError rt (Some ''signatures don't match'')) False)"
    using validateJwt_mismatch by blast
qed


text \<open>
  Witness for C5: the valid sample token, and the token that differs from it in the first
  character of the signature segment.
\<close>

theorem signature_comparison_witness:
  "validateJwt sampleRuntime (sampleRequest validToken None)
   = Fulfilled (Valid \<lparr>header = properties plainHeader, payload = issuerPayload,
                        signature = goodSignatureHex\<rparr> validToken None)
   \<and> parseAndDecode sampleRuntime validToken
     = Inr \<lparr>maybeHeader = plainHeader, maybePayload = issuerPayload,
             maybeSignature = JStr goodSignatureHex\<rparr>
   \<and> parseAndDecode sampleRuntime tamperedToken
     = Inr \<lparr>maybeHeader = plainHeader, maybePayload = issuerPayload,
             maybeSignature = JStr badSignatureHex\<rparr>
   \<and> validateJwt sampleRuntime (sampleRequest tamperedToken None)
     = Fulfilled (Invalid tamperedToken
         \<lparr>message = Some ''signatures don't match'', name = ''JwtError'',
          date = 1600000000001\<rparr> False)"
  using signature_comparison [where rt = sampleRuntime
      and v = "sampleRequest tamperedToken None"
      and m = "\<lparr>maybeHeader = plainHeader, maybePayload = issuerPayload,
                 maybeSignature = JStr badSignatureHex\<rparr>"
      and obj' = "\<lparr>header = properties plainHeader, payload = issuerPayload,
                    signature = badSignatureHex\<rparr>"
      and outputs' = None and resigned = validToken
      and fresh = "\<lparr>maybeHeader = plainHeader, maybePayload = issuerPayload,
                     maybeSignature = JStr goodSignatureHex\<rparr>"]
  by (simp add: validateJwt_validToken parse_validToken parse_tamperedToken
      validateJwt_tamperedToken)

text \<open>
  C1, as the code has it. For every validation request whose handlers are polite (each
  call settles, and what a handler throws or rejects with is readable: neither \<^verbatim>\<open>null\<close>
  nor \<^verbatim>\<open>undefined\<close>, with a \<^verbatim>\<open>message\<close> that the \<^verbatim>\<open>catch\<close> block can read and convert to a
  string), with collaborators that throw readable values only, \<open>validateJwt\<close> lets
  nothing escape: its promise fulfils with a tagged result, which is either the valid
  shape or the invalid shape with the original token and an error record that carries
  the message and the time of its construction.
\<close>

theorem validateJwt_always_settles:
  assumes "politeHandlers (critHandlers v)" and "politeRuntime rt"
  shows "\<exists>result. validateJwt rt v = Fulfilled result
           \<and> (isValid result \<and> validJwt result = jwt v
                \<or> (\<exists>msg expired. result = Invalid (jwt v) (newJwtError rt msg) expired))"
proof (cases "tryBlock rt v")
  case (Fulfilled r)
  then have "isValid r" by (rule tryBlock_Fulfilled)
  moreover from this Fulfilled have "validJwt r = jwt v"
    by (auto simp: tryBlock_def split: sum.splits promise.splits if_splits)
  ultimately show ?thesis
    using Fulfilled by (simp add: validateJwt_def)
next
  case (Rejected e)
  with tryBlock_polite [OF assms] have "readable e" by auto
  then have "\<exists>msg expired. catchBlock rt v e
                 = Fulfilled (Invalid (jwt v) (newJwtError rt msg) expired)"
    by (rule catchBlock_settles)
  with Rejected show ?thesis
    by (auto simp: validateJwt_def)
next
  case Pending
  with tryBlock_polite [OF assms] show ?thesis by simp
qed

text \<open>Witness for C1: a handler that throws an \<^verbatim>\<open>Error\<close>.\<close>

theorem validateJwt_always_settles_witness:
  "validateJwt sampleRuntime
     (sampleRequest extensionToken (handlersDoing (Throws (ErrorObject ''Error'' ''refused''))))
   = Fulfilled (Invalid extensionToken
       \<lparr>message = Some ''refused'', name = ''JwtError'', date = 1600000000001\<rparr> False)"
proof -
  have "polite (Throws (ErrorObject ''Error'' ''refused'') :: string called)"
    by simp
  then have "politeHandlers (critHandlers
      (sampleRequest extensionToken (handlersDoing (Throws (ErrorObject ''Error'' ''refused'')))))"
    by (simp add: sampleRequest_def politeHandlers_sample)
  from validateJwt_always_settles [OF this politeRuntime_sample]
  show ?thesis
    unfolding validateJwt_extensionToken
    by (simp add: catchBlock_ErrorObject sampleRequest_def newJwtError_def
        sampleRuntime_simps)
qed

text \<open>
  Counterexample to C1 as stated: with a handler that throws \<^verbatim>\<open>undefined\<close> the read of
  \<^verbatim>\<open>err.message\<close> in the \<^verbatim>\<open>catch\<close> block raises a \<^verbatim>\<open>TypeError\<close>, which escapes as the
  rejection of the promise; so does what the getter of \<^verbatim>\<open>message\<close> throws, and the
  \<^verbatim>\<open>TypeError\<close> of the constructor of \<^verbatim>\<open>JwtError\<close> for a message that is a \<^verbatim>\<open>Symbol\<close>; with
  a handler whose promise never settles there is never a result.
\<close>

theorem validateJwt_escapes_counterexample:
  "validateJwt sampleRuntime (sampleRequest extensionToken (handlersDoing (Throws Nullish)))
   = Rejected cannotRead
   \<and> validateJwt sampleRuntime
       (sampleRequest extensionToken
          (handlersDoing (Throws (Unreadable (ErrorObject ''Error'' ''no message'')))))
     = Rejected (ErrorObject ''Error'' ''no message'')
   \<and> validateJwt sampleRuntime
       (sampleRequest extensionToken
          (handlersDoing (Throws (Unconvertible
             (ErrorObject ''TypeError'' ''Cannot convert a Symbol value to a string'')))))
     = Rejected (ErrorObject ''TypeError'' ''Cannot convert a Symbol value to a string'')
   \<and> validateJwt sampleRuntime
       (sampleRequest extensionToken (handlersDoing (Returns NeverSettles)))
     = Pending"
  by (simp add: validateJwt_extensionToken catchBlock_def)


text \<open>
  C2, as the code has it. The \<open>isExpired\<close> field of an invalid result is true exactly
  when the message of the caught value is the string \<^verbatim>\<open>the jwt is expired\<close>. The structural
  validator throws an error with that message exactly when signature and header pass
  their checks and the \<^verbatim>\<open>exp\<close> of the payload is past its leeway, and \<open>isExpired\<close> is then
  true. It is false for every other failure of the verifier itself: the wrong number of
  segments, the other structural failures, the failures of the dispatcher before any
  handler is called, the algorithm mismatch and the signature mismatch. For a value that
  a handler throws or rejects with, \<open>isExpired\<close> is true if and only if that value carries
  the same message.
\<close>

theorem isExpired_follows_message:
  "(validateJwt rt v = Fulfilled (Invalid j er expired)
      \<longrightarrow> expired = (message er = Some ''the jwt is expired''))
   \<and> (validateJwtObject rt m = Inl (ErrorObject ''RangeError'' ''the jwt is expired''))
     = (typeofJson (maybeSignature m) = TString
        \<and> (\<exists>hdr a. maybeHeader m = JObj hdr \<and> map_of hdr ''alg'' = Some (JStr a))
        \<and> pastLeeway rt (maybePayload m))
   \<and> (parseAndDecode rt (jwt v) = Inr m \<and> validateJwtObject rt m = Inl e
      \<longrightarrow> (\<exists>msg. validateJwt rt v
             = Fulfilled (Invalid (jwt v) (newJwtError rt (Some msg))
                 (e = ErrorObject ''RangeError'' ''the jwt is expired''))))
   \<and> (parseAndDecode rt (jwt v) = Inl (ErrorObject ''TypeError'' ''invalid serialization'')
      \<longrightarrow> validateJwt rt v
          = Fulfilled (Invalid (jwt v) (newJwtError rt (Some ''invalid serialization'')) False))
   \<and> (parseAndDecode rt (jwt v) = Inr m \<and> validateJwtObject rt m = Inr obj
        \<and> handleJwtObject obj (critHandlers v) = ([], Rejected e)
      \<longrightarrow> (\<exists>msg. validateJwt rt v
             = Fulfilled (Invalid (jwt v) (newJwtError rt (Some msg)) False)))
   \<and> (parseAndDecode rt (jwt v) = Inr m \<and> validateJwtObject rt m = Inr obj
        \<and> snd (handleJwtObject obj (critHandlers v)) = Rejected (ErrorObject n msg)
      \<longrightarrow> validateJwt rt v
          = Fulfilled (Invalid (jwt v) (newJwtError rt (Some msg))
              (msg = ''the jwt is expired'')))
   \<and> (parseAndDecode rt (jwt v) = Inr m \<and> validateJwtObject rt m = Inr obj
        \<and> snd (handleJwtObject obj (critHandlers v)) = Rejected NoMessage
      \<longrightarrow> validateJwt rt v = Fulfilled (Invalid (jwt v) (newJwtError rt None) False))
   \<and> (parseAndDecode rt (jwt v) = Inr m \<and> validateJwtObject rt m = Inr obj
        \<and> snd (handleJwtObject obj (critHandlers v)) = Fulfilled (obj, outputs)
        \<and> \<not> validateAlgorithm (algorithm v) (stringOf (getProperty (header obj) ''alg''))
      \<longrightarrow> (\<exists>msg. validateJwt rt v
             = Fulfilled (Invalid (jwt v) (newJwtError rt (Some msg)) False)))
   \<and> (parseAndDecode rt (jwt v) = Inr m \<and> validateJwtObject rt m = Inr obj
        \<and> snd (handleJwtObject obj (critHandlers v)) = Fulfilled (obj, outputs)
        \<and> validateAlgorithm (algorithm v) (stringOf (getProperty (header obj) ''alg''))
        \<and> makeJwt rt obj (key v) = Inr resigned
        \<and> parseAndDecode rt resigned = Inr fresh
        \<and> maybeSignature fresh \<noteq> maybeSignature m
      \<longrightarrow> validateJwt rt v
          = Fulfilled (Invalid (jwt v) (newJwtError rt (Some ''signatures don't match'')) False))"
proof (intro conjI impI)
  assume "validateJwt rt v = Fulfilled (Invalid j er expired)"
  then show "expired = (message er = Some ''the jwt is expired'')"
    by (rule validateJwt_Invalid)
next
  show "(validateJwtObject rt m = Inl (ErrorObject ''RangeError'' ''the jwt is expired''))
     = (typeofJson (maybeSignature m) = TString
        \<and> (\<exists>hdr a. maybeHeader m = JObj hdr \<and> map_of hdr ''alg'' = Some (JStr a))
        \<and> pastLeeway rt (maybePayload m))"
    by (rule validateJwtObject_expired_iff)
next
  assume a: "parseAndDecode rt (jwt v) = Inr m \<and> validateJwtObject rt m = Inl e"
  then obtain n msg where e: "e = ErrorObject n msg"
    by (auto dest: validateJwtObject_Inl)
  have "(msg = ''the jwt is expired'')
        = (e = ErrorObject ''RangeError'' ''the jwt is expired'')"
    using a e validateJwtObject_Inl [of rt m e] by auto
  with a e show "\<exists>msg. validateJwt rt v
             = Fulfilled (Invalid (jwt v) (newJwtError rt (Some msg))
                 (e = ErrorObject ''RangeError'' ''the jwt is expired''))"
    by (intro exI [of _ msg]) (simp add: validateJwt_structure catchBlock_ErrorObject)
next
  assume "parseAndDecode rt (jwt v) = Inl (ErrorObject ''TypeError'' ''invalid serialization'')"
  then show "validateJwt rt v
          = Fulfilled (Invalid (jwt v) (newJwtError rt (Some ''invalid serialization'')) False)"
    by (simp add: validateJwt_decoding catchBlock_ErrorObject)
next
  assume a: "parseAndDecode rt (jwt v) = Inr m \<and> validateJwtObject rt m = Inr obj
        \<and> handleJwtObject obj (critHandlers v) = ([], Rejected e)"
  then obtain msg where "e = ErrorObject ''Error'' msg" "msg \<noteq> ''the jwt is expired''"
    using handleJwtObject_no_call by blast
  with a show "\<exists>msg. validateJwt rt v
             = Fulfilled (Invalid (jwt v) (newJwtError rt (Some msg)) False)"
    by (intro exI [of _ msg])
      (simp add: validateJwt_dispatch [where e = e] catchBlock_ErrorObject)
next
  assume "parseAndDecode rt (jwt v) = Inr m \<and> validateJwtObject rt m = Inr obj
        \<and> snd (handleJwtObject obj (critHandlers v)) = Rejected (ErrorObject n msg)"
  then show "validateJwt rt v
          = Fulfilled (Invalid (jwt v) (newJwtError rt (Some msg))
              (msg = ''the jwt is expired''))"
    by (simp add: validateJwt_dispatch [where e = "ErrorObject n msg"] catchBlock_ErrorObject)
next
  assume "parseAndDecode rt (jwt v) = Inr m \<and> validateJwtObject rt m = Inr obj
        \<and> snd (handleJwtObject obj (critHandlers v)) = Rejected NoMessage"
  then show "validateJwt rt v = Fulfilled (Invalid (jwt v) (newJwtError rt None) False)"
    by (simp add: validateJwt_dispatch [where e = NoMessage] catchBlock_def)
next
  assume "parseAndDecode rt (jwt v) = Inr m \<and> validateJwtObject rt m = Inr obj
        \<and> snd (handleJwtObject obj (critHandlers v)) = Fulfilled (obj, outputs)
        \<and> \<not> validateAlgorithm (algorithm v) (stringOf (getProperty (header obj) ''alg''))"
  then show "\<exists>msg. validateJwt rt v
             = Fulfilled (Invalid (jwt v) (newJwtError rt (Some msg)) False)"
    using validateJwt_gate [of rt v m obj obj outputs] by blast
next
  assume "parseAndDecode rt (jwt v) = Inr m \<and> validateJwtObject rt m = Inr obj
        \<and> snd (handleJwtObject obj (critHandlers v)) = Fulfilled (obj, outputs)
        \<and> validateAlgorithm (algorithm v) (stringOf (getProperty (header obj) ''alg''))
        \<and> makeJwt rt obj (key v) = Inr resigned
        \<and> parseAndDecode rt resigned = Inr fresh
        \<and> maybeSignature fresh \<noteq> maybeSignature m"
  then show "validateJwt rt v
          = Fulfilled (Invalid (jwt v) (newJwtError rt (Some ''signatures don't match'')) False)"
    using validateJwt_mismatch by blast
qed


text \<open>Witness for C2: the expired sample token and the tampered one.\<close>

theorem isExpired_follows_message_witness:
  "validateJwt sampleRuntime (sampleRequest expiredToken None)
   = Fulfilled (Invalid expiredToken
       \<lparr>message = Some ''the jwt is expired'', name = ''JwtError'',
        date = 1600000000001\<rparr> True)
   \<and> pastLeeway sampleRuntime expiredPayload
   \<and> validateJwt sampleRuntime (sampleRequest tamperedToken None)
     = Fulfilled (Invalid tamperedToken
         \<lparr>message = Some ''signatures don't match'', name = ''JwtError'',
          date = 1600000000001\<rparr> False)"
  using isExpired_follows_message [where rt = sampleRuntime
      and v = "sampleRequest expiredToken None"
      and m = "\<lparr>maybeHeader = plainHeader, maybePayload = expiredPayload,
                 maybeSignature = JStr goodSignatureHex\<rparr>"
      and e = "ErrorObject ''RangeError'' ''the jwt is expired''"]
    isExpired_follows_message [where rt = sampleRuntime
      and v = "sampleRequest tamperedToken None"
      and m = "\<lparr>maybeHeader = plainHeader, maybePayload = issuerPayload,
                 maybeSignature = JStr badSignatureHex\<rparr>"
      and obj = "\<lparr>header = properties plainHeader, payload = issuerPayload,
                    signature = badSignatureHex\<rparr>"
      and outputs = None and resigned = validToken
      and fresh = "\<lparr>maybeHeader = plainHeader, maybePayload = issuerPayload,
                     maybeSignature = JStr goodSignatureHex\<rparr>"]
  by (simp add: validateJwt_expiredToken validateJwt_tamperedToken validate_sample)

text \<open>
  Counterexample to C2 as stated: the token has no \<^verbatim>\<open>exp\<close> and passes the structural
  validator; the handler of its critical extension throws an error whose message is the
  text of the expiration error, and the result has \<open>isExpired = true\<close>.
\<close>

theorem handler_message_counterexample:
  "parseAndDecode sampleRuntime extensionToken
   = Inr \<lparr>maybeHeader = extensionHeader, maybePayload = issuerPayload,
           maybeSignature = JStr goodSignatureHex\<rparr>
   \<and> validateJwtObject sampleRuntime
       \<lparr>maybeHeader = extensionHeader, maybePayload = issuerPayload,
        maybeSignature = JStr goodSignatureHex\<rparr>
     = Inr \<lparr>header = properties extensionHeader, payload = issuerPayload,
             signature = goodSignatureHex\<rparr>
   \<and> validateJwt sampleRuntime
       (sampleRequest extensionToken
          (handlersDoing (Throws (ErrorObject ''Error'' ''the jwt is expired''))))
     = Fulfilled (Invalid extensionToken
         \<lparr>message = Some ''the jwt is expired'', name = ''JwtError'',
          date = 1600000000001\<rparr> True)"
  unfolding validateJwt_extensionToken
  by (simp add: parse_extensionToken validate_sample catchBlock_ErrorObject sampleRequest_def
      newJwtError_def sampleRuntime_simps)

end
